theory Spec2Isabelle
  imports Complex_Main
begin

section \<open>Strings and terminal escape codes\<close>

text \<open>
  A Python \<open>str\<close> is modelled as a \<open>string\<close>: one \<open>char\<close> per character.
  The only characters of the program outside the 8-bit range are the six box-drawing
  glyphs of the placeholder image; they are written as their UTF-8 byte triples, and no
  function of the model inspects or measures the lines that hold them.
\<close>

definition ESC :: char where
  "ESC = CHR 0x1B"

text \<open>\<open>class Colors\<close> of \<open>display.py\<close>.\<close>

definition RESET :: string where "RESET = ESC # ''[0m''"
definition RED :: string where "RED = ESC # ''[31m''"
definition GREEN :: string where "GREEN = ESC # ''[32m''"
definition YELLOW :: string where "YELLOW = ESC # ''[33m''"
definition BLUE :: string where "BLUE = ESC # ''[34m''"
definition PURPLE :: string where "PURPLE = ESC # ''[35m''"
definition CYAN :: string where "CYAN = ESC # ''[36m''"
definition WHITE :: string where "WHITE = ESC # ''[37m''"
definition BOLD :: string where "BOLD = ESC # ''[1m''"

text \<open>\<open>' ' * n\<close>: Python's repetition of a string by an \<open>int\<close>, empty for \<open>n \<le> 0\<close>.\<close>

definition spaces :: "int \<Rightarrow> string" where
  "spaces n = replicate (nat n) CHR '' ''"

section \<open>Info lines\<close>

text \<open>\<open>DisplayFormatter._format_info_line\<close>.\<close>

definition format_info_line :: "string \<Rightarrow> string \<Rightarrow> string \<Rightarrow> string" where
  "format_info_line label val color =
     (let min_padding = (2::int);
          max_label_width = (12::int);
          label_width = int (length label);
          padding = max_label_width - label_width + min_padding;
          padding = (if padding < min_padding then min_padding else padding)
      in BOLD @ label @ RESET @ spaces padding @ color @ val @ RESET)"

section \<open>Python lists and ranges\<close>

text \<open>
  Exceptions as values. \<open>Exception msg\<close> is what the program raises itself;
  \<open>OtherError name\<close> stands for any other exception of a library call, by class name.
\<close>

datatype py_error =
    Exception string
  | OtherError string
  | AttributeError | TypeError | KeyError | IndexError | ValueError | OverflowError
  | CalledProcessError | FileNotFoundError

text \<open>
  The subscript \<open>xs[i]\<close> of a list: from the front for \<open>0 \<le> i < len(xs)\<close>, from the
  back for \<open>-len(xs) \<le> i < 0\<close>, and \<open>IndexError\<close> for every other index.
\<close>

definition py_index :: "'a list \<Rightarrow> int \<Rightarrow> py_error + 'a" where
  "py_index xs i =
     (if 0 \<le> i \<and> i < int (length xs) then Inr (xs ! nat i)
      else if i < 0 \<and> - int (length xs) \<le> i then Inr (xs ! nat (int (length xs) + i))
      else Inl IndexError)"

text \<open>\<open>range(a, b)\<close>, empty when \<open>b \<le> a\<close>.\<close>

definition py_range :: "int \<Rightarrow> int \<Rightarrow> int list" where
  "py_range a b = map (\<lambda>k. a + int k) [0..<nat (b - a)]"

section \<open>Side-by-side compositor\<close>

text \<open>\<open>str.lower\<close> on the 8-bit range: A-Z and the Latin-1 capitals.\<close>

definition lower_char :: "char \<Rightarrow> char" where
  "lower_char c =
     (let n = (of_char c :: nat)
      in if (65 \<le> n \<and> n \<le> 90) \<or> (192 \<le> n \<and> n \<le> 222 \<and> n \<noteq> 215)
         then char_of (n + 32) else c)"

definition lower :: "string \<Rightarrow> string" where
  "lower s = map lower_char s"

fun startswith :: "string \<Rightarrow> string \<Rightarrow> bool" where
  "startswith s [] = True"
| "startswith [] (p # ps) = False"
| "startswith (c # cs) (p # ps) = (c = p \<and> startswith cs ps)"

text \<open>\<open>sub in s\<close>, the substring test.\<close>

fun contains :: "string \<Rightarrow> string \<Rightarrow> bool" where
  "contains sub [] = (sub = [])"
| "contains sub (c # cs) = (startswith (c # cs) sub \<or> contains sub cs)"

text \<open>
  The parts of \<open>DisplayFormatter._display_side_by_side_with_links\<close>. The padding
  loop \<open>while len(info_lines) < target_lines: info_lines.append("")\<close>:
\<close>

function pad_info :: "string list \<Rightarrow> int \<Rightarrow> string list" where
  "pad_info info_lines target_lines =
     (if int (length info_lines) < target_lines
      then pad_info (info_lines @ [[]]) target_lines
      else info_lines)"
  by pat_completeness auto
termination
  by (relation "measure (\<lambda>(info_lines, target_lines). nat (target_lines - int (length info_lines)))")
     auto

declare pad_info.simps [simp del]

text \<open>
  One row of the main loop. The index comes from \<open>range(target_lines)\<close>, so it is
  never negative and the guarded reads are in range.
\<close>

definition content_row :: "string list \<Rightarrow> string list \<Rightarrow> int \<Rightarrow> string" where
  "content_row image_lines info_lines i =
     (let image_line = (if i < int (length image_lines) then image_lines ! nat i else spaces 46);
          info_line = (if i < int (length info_lines) then info_lines ! nat i else [])
      in image_line @ ''   '' @ info_line)"

text \<open>The loop \<open>for link in links\<close> that separates the Spotify link from the image link.\<close>

fun classify_links :: "string list \<Rightarrow> string \<times> string \<Rightarrow> string \<times> string" where
  "classify_links [] (spotify_link, image_link) = (spotify_link, image_link)"
| "classify_links (link # links) (spotify_link, image_link) =
     (if contains ''spotify'' (lower link)
      then classify_links links (link, image_link)
      else classify_links links (spotify_link, link))"

definition link_line :: "string list \<Rightarrow> string" where
  "link_line links =
     (let (spotify_link, image_link) = classify_links links ([], []);
          spotify_link = (if spotify_link = [] \<and> links \<noteq> [] then links ! 0 else spotify_link);
          image_link = (if image_link = [] \<and> length links > 1 then links ! 1 else image_link)
      in if spotify_link \<noteq> [] \<and> image_link \<noteq> [] then spotify_link @ ''   '' @ image_link
         else if spotify_link \<noteq> [] then spotify_link
         else image_link)"

text \<open>
  The loops \<open>for i in range(..., len(image_lines)): print(f"{image_lines[i]}   ")\<close>:
  the rows printed, and the exception that stopped the loop, if any.
\<close>

fun print_image_rows :: "string list \<Rightarrow> int list \<Rightarrow> string list \<times> py_error option" where
  "print_image_rows image_lines [] = ([], None)"
| "print_image_rows image_lines (i # is) =
     (case py_index image_lines i of
        Inl e \<Rightarrow> ([], Some e)
      | Inr image_line \<Rightarrow>
          (let (rows, r) = print_image_rows image_lines is
           in ((image_line @ ''   '') # rows, r)))"

text \<open>
  The compositor returns the rows it printed, in order, and the exception it raised, if
  any (\<open>None\<close> when it returned).
\<close>

definition display_side_by_side_with_links ::
  "string list \<Rightarrow> string list \<Rightarrow> string list \<Rightarrow> string list \<times> py_error option" where
  "display_side_by_side_with_links image_lines info_lines0 links =
     (let max_lines = max (int (length image_lines)) (int (length info_lines0));
          target_lines = max_lines - 2;
          info_lines = pad_info info_lines0 target_lines;
          content = map (content_row image_lines info_lines) (py_range 0 target_lines)
      in if links \<noteq> [] then
           (case (if target_lines < int (length image_lines)
                  then py_index image_lines target_lines else Inr (spaces 46)) of
              Inl e \<Rightarrow> (content, Some e)
            | Inr image_line \<Rightarrow>
                (let (rest, r) = print_image_rows image_lines
                                   (py_range (target_lines + 1) (int (length image_lines)))
                 in (content @ [image_line @ ''   '' @ link_line links] @ rest, r)))
         else
           (let (rest, r) = print_image_rows image_lines
                              (py_range target_lines (int (length image_lines)))
            in (content @ rest, r)))"

section \<open>Image renderer\<close>

text \<open>\<open>str(n)\<close> for an integer: decimal digits, with a minus sign when negative.\<close>

definition digit_char :: "nat \<Rightarrow> char" where
  "digit_char d = ''0123456789'' ! d"

function str_nat :: "nat \<Rightarrow> string" where
  "str_nat n = (if n < 10 then [digit_char n] else str_nat (n div 10) @ [digit_char (n mod 10)])"
  by pat_completeness auto
termination
  by (relation "measure id") auto

declare str_nat.simps [simp del]

definition str_int :: "int \<Rightarrow> string" where
  "str_int i = (if i < 0 then CHR ''-'' # str_nat (nat (- i)) else str_nat (nat i))"

text \<open>\<open>str.isspace\<close> on the 8-bit range, \<open>str.strip()\<close> and \<open>str.split(sep)\<close>.\<close>

definition is_space :: "char \<Rightarrow> bool" where
  "is_space c =
     (let n = (of_char c :: nat)
      in (9 \<le> n \<and> n \<le> 13) \<or> (28 \<le> n \<and> n \<le> 32) \<or> n = 133 \<or> n = 160)"

definition strip :: "string \<Rightarrow> string" where
  "strip s = rev (dropWhile is_space (rev (dropWhile is_space s)))"

fun split_on :: "char \<Rightarrow> string \<Rightarrow> string list" where
  "split_on sep [] = [[]]"
| "split_on sep (c # cs) =
     (if c = sep then [] # split_on sep cs
      else (case split_on sep cs of
              [] \<Rightarrow> [[c]]
            | l # ls \<Rightarrow> (c # l) # ls))"

text \<open>\<open>xs[:n]\<close>: a negative bound counts from the end.\<close>

definition py_take :: "int \<Rightarrow> 'a list \<Rightarrow> 'a list" where
  "py_take n xs = (if 0 \<le> n then take (nat n) xs else take (nat (int (length xs) + n)) xs)"

text \<open>The loops \<open>while len(lines) < height: lines.append(blank)\<close>.\<close>

function pad_lines :: "string list \<Rightarrow> int \<Rightarrow> string \<Rightarrow> string list" where
  "pad_lines lines height blank =
     (if int (length lines) < height
      then pad_lines (lines @ [blank]) height blank
      else lines)"
  by pat_completeness auto
termination
  by (relation "measure (\<lambda>(lines, height, blank). nat (height - int (length lines)))") auto

declare pad_lines.simps [simp del]

text \<open>
  \<open>class ImageRenderer\<close>: \<open>__init__\<close> sets both width and height to the size.
\<close>

record renderer =
  width :: int
  height :: int

definition ImageRenderer :: "int \<Rightarrow> renderer" where
  "ImageRenderer sz = \<lparr>width = sz, height = sz\<rparr>"

text \<open>
  What the renderer gets from outside the program: the outcome of the version probe
  \<open>subprocess.run(['chafa', '--version'], check=True)\<close> (the exception raised, if
  any), of \<open>_download_to_temp\<close> (the name of the temporary file, \<open>None\<close> after any
  exception), of running chafa on that file with the requested size and deleting the
  file (the standard output, or the exception), of \<open>_download_image\<close>, and of
  converting the image to RGB and fitting it to the size (the pixel at \<open>(x, y)\<close>, or the
  exception).
\<close>

record 'img render_env =
  chafa_version :: "py_error option"
  download_to_temp :: "string \<Rightarrow> string option"
  chafa_run :: "string \<Rightarrow> int \<Rightarrow> int \<Rightarrow> py_error + string"
  download_image :: "string \<Rightarrow> py_error + 'img"
  fit_rgb :: "'img \<Rightarrow> int \<Rightarrow> int \<Rightarrow> py_error + (int \<Rightarrow> int \<Rightarrow> int \<times> int \<times> int)"

text \<open>
  \<open>_is_chafa_available\<close> catches \<open>CalledProcessError\<close> and \<open>FileNotFoundError\<close>
  only; any other exception of the probe propagates.
\<close>

definition is_chafa_available :: "'img render_env \<Rightarrow> py_error + bool" where
  "is_chafa_available env =
     (case chafa_version env of
        None \<Rightarrow> Inr True
      | Some CalledProcessError \<Rightarrow> Inr False
      | Some FileNotFoundError \<Rightarrow> Inr False
      | Some e \<Rightarrow> Inl e)"

text \<open>\<open>_render_with_chafa\<close>: every exception in its body makes it return \<open>None\<close>.\<close>

definition render_with_chafa :: "'img render_env \<Rightarrow> renderer \<Rightarrow> string \<Rightarrow> string list option" where
  "render_with_chafa env self image_url =
     (case download_to_temp env image_url of
        None \<Rightarrow> None
      | Some temp_file \<Rightarrow>
          if temp_file = [] then None
          else (case chafa_run env temp_file (width self * 2) (height self) of
                  Inl e \<Rightarrow> None
                | Inr stdout \<Rightarrow>
                    (let lines = split_on CHR 0x0A (strip stdout);
                         lines = map (\<lambda>line. CHR '' '' # line) lines;
                         lines = pad_lines lines (height self) (spaces (width self * 2 + 1));
                         lines = (if int (length lines) > height self
                                  then py_take (height self) lines else lines)
                     in Some lines)))"

text \<open>One sample of \<open>_get_block_art_lines\<close>: a true-colour background block and a reset.\<close>

definition block :: "int \<times> int \<times> int \<Rightarrow> string" where
  "block p = (case p of (r, g, b) \<Rightarrow>
     ESC # ''[48;2;'' @ str_int r @ '';'' @ str_int g @ '';'' @ str_int b @ ''m  '' @ ESC # ''[0m'')"

definition get_block_art_lines :: "'img render_env \<Rightarrow> renderer \<Rightarrow> 'img \<Rightarrow> py_error + string list" where
  "get_block_art_lines env self img =
     (case fit_rgb env img (width self) (height self) of
        Inl e \<Rightarrow> Inl e
      | Inr getpixel \<Rightarrow>
          Inr (map (\<lambda>y. CHR '' '' # concat (map (\<lambda>x. block (getpixel x y)) (py_range 0 (width self))))
                   (py_range 0 (height self))))"

text \<open>
  The six box-drawing glyphs of the placeholder, U+250C, U+2500, U+2510, U+2502, U+2514
  and U+2518, in UTF-8.
\<close>

definition BOX_DOWN_RIGHT :: string where "BOX_DOWN_RIGHT = [CHR 0xE2, CHR 0x94, CHR 0x8C]"
definition BOX_HORIZONTAL :: string where "BOX_HORIZONTAL = [CHR 0xE2, CHR 0x94, CHR 0x80]"
definition BOX_DOWN_LEFT :: string where "BOX_DOWN_LEFT = [CHR 0xE2, CHR 0x94, CHR 0x90]"
definition BOX_VERTICAL :: string where "BOX_VERTICAL = [CHR 0xE2, CHR 0x94, CHR 0x82]"
definition BOX_UP_RIGHT :: string where "BOX_UP_RIGHT = [CHR 0xE2, CHR 0x94, CHR 0x94]"
definition BOX_UP_LEFT :: string where "BOX_UP_LEFT = [CHR 0xE2, CHR 0x94, CHR 0x98]"

text \<open>The eight literal lines of \<open>_get_placeholder_lines\<close>.\<close>

definition placeholder_box :: "string list" where
  "placeholder_box =
     [CHR '' '' # WHITE @ BOX_DOWN_RIGHT @ concat (replicate 31 BOX_HORIZONTAL) @ BOX_DOWN_LEFT @ RESET,
      CHR '' '' # WHITE @ BOX_VERTICAL @ ''                               '' @ BOX_VERTICAL @ RESET,
      CHR '' '' # WHITE @ BOX_VERTICAL @ ''                               '' @ BOX_VERTICAL @ RESET,
      CHR '' '' # WHITE @ BOX_VERTICAL @ ''           NO IMAGE            '' @ BOX_VERTICAL @ RESET,
      CHR '' '' # WHITE @ BOX_VERTICAL @ ''           AVAILABLE           '' @ BOX_VERTICAL @ RESET,
      CHR '' '' # WHITE @ BOX_VERTICAL @ ''                               '' @ BOX_VERTICAL @ RESET,
      CHR '' '' # WHITE @ BOX_VERTICAL @ ''                               '' @ BOX_VERTICAL @ RESET,
      CHR '' '' # WHITE @ BOX_UP_RIGHT @ concat (replicate 31 BOX_HORIZONTAL) @ BOX_UP_LEFT @ RESET]"

text \<open>\<open>_get_placeholder_lines\<close>: the box, padded with 33 spaces up to 20 lines.\<close>

definition get_placeholder_lines :: "string list" where
  "get_placeholder_lines = pad_lines placeholder_box 20 (spaces 33)"

text \<open>\<open>ImageRenderer.render_image_lines\<close>.\<close>

definition render_fallback :: "'img render_env \<Rightarrow> renderer \<Rightarrow> string \<Rightarrow> string list" where
  "render_fallback env self image_url =
     (case download_image env image_url of
        Inl e \<Rightarrow> get_placeholder_lines
      | Inr img \<Rightarrow>
          (case get_block_art_lines env self img of
             Inl e \<Rightarrow> get_placeholder_lines
           | Inr lines \<Rightarrow> lines))"

definition render_image_lines :: "'img render_env \<Rightarrow> renderer \<Rightarrow> string \<Rightarrow> py_error + string list" where
  "render_image_lines env self image_url =
     (if image_url = [] then Inr get_placeholder_lines
      else (case is_chafa_available env of
              Inl e \<Rightarrow> Inl e
            | Inr available \<Rightarrow>
                (case (if available then render_with_chafa env self image_url else None) of
                   Some lines \<Rightarrow>
                     if lines \<noteq> [] then Inr lines else Inr (render_fallback env self image_url)
                 | None \<Rightarrow> Inr (render_fallback env self image_url))))"

section \<open>JSON values\<close>

text \<open>
  What \<open>response.json()\<close> returns: \<open>None\<close>, a bool, a number, a string, a list or a
  dict, the dict given as the list of its items (keys distinct).
\<close>

datatype json =
    JNull | JBool bool | JNum real | JStr string | JList "json list" | JObj "(string \<times> json) list"

text \<open>\<open>d.get(key, default)\<close>: only a dict has the method.\<close>

definition py_get :: "json \<Rightarrow> string \<Rightarrow> json \<Rightarrow> py_error + json" where
  "py_get d key dflt =
     (case d of
        JObj items \<Rightarrow> Inr (case map_of items key of None \<Rightarrow> dflt | Some v \<Rightarrow> v)
      | _ \<Rightarrow> Inl AttributeError)"

text \<open>\<open>d[key]\<close> with a string key.\<close>

definition py_getitem :: "json \<Rightarrow> string \<Rightarrow> py_error + json" where
  "py_getitem d key =
     (case d of
        JObj items \<Rightarrow> (case map_of items key of None \<Rightarrow> Inl KeyError | Some v \<Rightarrow> Inr v)
      | _ \<Rightarrow> Inl TypeError)"

text \<open>\<open>xs[0]\<close>: the first element of a list, the first character of a string.\<close>

definition py_first :: "json \<Rightarrow> py_error + json" where
  "py_first xs =
     (case xs of
        JList ys \<Rightarrow> py_index ys 0
      | JStr cs \<Rightarrow> (case py_index cs 0 of Inl e \<Rightarrow> Inl e | Inr c \<Rightarrow> Inr (JStr [c]))
      | JObj items \<Rightarrow> Inl KeyError
      | _ \<Rightarrow> Inl TypeError)"

text \<open>Truth value of an object in \<open>if x:\<close>.\<close>

definition truthy :: "json \<Rightarrow> bool" where
  "truthy x =
     (case x of
        JNull \<Rightarrow> False
      | JBool b \<Rightarrow> b
      | JNum n \<Rightarrow> n \<noteq> 0
      | JStr cs \<Rightarrow> cs \<noteq> []
      | JList ys \<Rightarrow> ys \<noteq> []
      | JObj items \<Rightarrow> items \<noteq> [])"

text \<open>A number as the operand of \<open>+\<close> with a float: a bool counts as 0 or 1.\<close>

definition py_number :: "json \<Rightarrow> py_error + real" where
  "py_number x =
     (case x of
        JNum n \<Rightarrow> Inr n
      | JBool b \<Rightarrow> Inr (if b then 1 else 0)
      | _ \<Rightarrow> Inl TypeError)"

section \<open>Catalog client: authentication\<close>

text \<open>
  The fields of \<open>class SpotifyClient\<close> that \<open>_authenticate\<close> reads and writes. Time
  stamps are real numbers of seconds; the rounding of the float sum is not modelled.
\<close>

record client =
  client_id :: string
  client_secret :: string
  access_token :: "json option"
  token_expiry :: real

definition auth_url :: string where
  "auth_url = ''https://accounts.spotify.com/api/token''"

text \<open>\<open>SpotifyClient.__init__\<close>.\<close>

definition SpotifyClient :: "string \<Rightarrow> string \<Rightarrow> client" where
  "SpotifyClient cid secret =
     \<lparr>client_id = cid, client_secret = secret, access_token = None, token_expiry = 0\<rparr>"

record http_response =
  status_code :: int
  response_text :: string
  response_json :: "py_error + json"

text \<open>The token request that \<open>requests.post\<close> sends.\<close>

record token_request =
  request_url :: string
  authorization :: string
  content_type :: string
  form_data :: "(string \<times> string) list"

text \<open>
  What \<open>_authenticate\<close> gets from outside: the two readings of \<open>time.time()\<close>, the
  Base64 encoding, and the outcome of the POST (the response, or the exception of the
  transport).
\<close>

record auth_env =
  time_at_check :: real
  time_at_store :: real
  b64encode :: "string \<Rightarrow> string"
  post :: "token_request \<Rightarrow> py_error + http_response"

text \<open>
  \<open>SpotifyClient._authenticate\<close>: the requests sent, the client afterwards, and the
  exception raised, if any.
\<close>

definition authenticate :: "auth_env \<Rightarrow> client \<Rightarrow> token_request list \<times> client \<times> py_error option" where
  "authenticate env self =
     (if time_at_check env < token_expiry self then ([], self, None)
      else
        (let credentials = client_id self @ '':'' @ client_secret self;
             encoded_credentials = b64encode env credentials;
             request = \<lparr>request_url = auth_url,
                        authorization = ''Basic '' @ encoded_credentials,
                        content_type = ''application/x-www-form-urlencoded'',
                        form_data = [(''grant_type'', ''client_credentials'')]\<rparr>
         in case post env request of
              Inl e \<Rightarrow> ([request], self, Some e)
            | Inr response \<Rightarrow>
                if status_code response \<noteq> 200
                then ([request], self,
                      Some (Exception (''Authentication failed: '' @ str_int (status_code response)
                                       @ '' - '' @ response_text response)))
                else
                  (case response_json response of
                     Inl e \<Rightarrow> ([request], self, Some e)
                   | Inr token_data \<Rightarrow>
                       (case py_getitem token_data ''access_token'' of
                          Inl e \<Rightarrow> ([request], self, Some e)
                        | Inr token \<Rightarrow>
                            (let self1 = self\<lparr>access_token := Some token\<rparr>
                             in case py_getitem token_data ''expires_in'' of
                                  Inl e \<Rightarrow> ([request], self1, Some e)
                                | Inr expires_in \<Rightarrow>
                                    (case py_number expires_in of
                                       Inl e \<Rightarrow> ([request], self1, Some e)
                                     | Inr seconds \<Rightarrow>
                                         ([request],
                                          self1\<lparr>token_expiry := time_at_store env + seconds\<rparr>,
                                          None)))))))"

section \<open>Search orchestrator\<close>

text \<open>
  What the search handlers get from the client and the formatter: the outcome of
  \<open>client.search(query, type)\<close>, of \<open>client._parse_track\<close>, \<open>client.get_album\<close> and
  \<open>client.get_artist\<close> (the record, or the exception), and of the three display
  methods (the exception raised, if any).
\<close>

record 'r search_env =
  search :: "string \<Rightarrow> string \<Rightarrow> py_error + json"
  parse_track :: "json \<Rightarrow> py_error + 'r"
  get_album :: "json \<Rightarrow> py_error + 'r"
  get_artist :: "json \<Rightarrow> py_error + 'r"
  display_track :: "'r \<Rightarrow> py_error option"
  display_album :: "'r \<Rightarrow> py_error option"
  display_artist :: "'r \<Rightarrow> py_error option"

text \<open>
  What a handler does, in order: the searches and lookups it asks of the client, the
  records it passes to the formatter, the messages it prints
  (\<open>PrintSearchFailed e\<close> is \<open>print(f"Search failed: {e}")\<close>) and \<open>sys.exit\<close>.
\<close>

datatype 'r event =
    Search string string
  | GetAlbum json
  | GetArtist json
  | DisplayTrack 'r
  | DisplayAlbum 'r
  | DisplayArtist 'r
  | Print string
  | PrintSearchFailed py_error
  | Exit int

text \<open>\<open>result.get(key, {}).get('items')\<close> and \<open>result[key]['items'][0]\<close>.\<close>

definition get_items :: "json \<Rightarrow> string \<Rightarrow> json \<Rightarrow> py_error + json" where
  "get_items result key dflt =
     (case py_get result key (JObj []) of
        Inl e \<Rightarrow> Inl e
      | Inr part \<Rightarrow> py_get part ''items'' dflt)"

definition first_item :: "json \<Rightarrow> string \<Rightarrow> py_error + json" where
  "first_item result key =
     (case py_getitem result key of
        Inl e \<Rightarrow> Inl e
      | Inr part \<Rightarrow>
          (case py_getitem part ''items'' of
             Inl e \<Rightarrow> Inl e
           | Inr items \<Rightarrow> py_first items))"

text \<open>
  The three \<open>try\<close> blocks of \<open>search_auto\<close>. Each gives its events and how it ended:
  \<open>Inr True\<close> when it reached \<open>return\<close>, \<open>Inr False\<close> when the result was empty,
  \<open>Inl e\<close> when \<open>e\<close> was raised (and caught by \<open>except Exception: pass\<close>).
\<close>

definition auto_track :: "'r search_env \<Rightarrow> string \<Rightarrow> 'r event list \<times> (py_error + bool)" where
  "auto_track env query =
     (case search env query ''track'' of
        Inl e \<Rightarrow> ([Search query ''track''], Inl e)
      | Inr result \<Rightarrow>
          (case get_items result ''tracks'' JNull of
             Inl e \<Rightarrow> ([Search query ''track''], Inl e)
           | Inr items \<Rightarrow>
               if truthy items then
                 (case first_item result ''tracks'' of
                    Inl e \<Rightarrow> ([Search query ''track''], Inl e)
                  | Inr track_data \<Rightarrow>
                      (case parse_track env track_data of
                         Inl e \<Rightarrow> ([Search query ''track''], Inl e)
                       | Inr track \<Rightarrow>
                           ([Search query ''track'', DisplayTrack track],
                            case display_track env track of Some e \<Rightarrow> Inl e | None \<Rightarrow> Inr True)))
               else ([Search query ''track''], Inr False)))"

definition auto_album :: "'r search_env \<Rightarrow> string \<Rightarrow> 'r event list \<times> (py_error + bool)" where
  "auto_album env query =
     (case search env query ''album'' of
        Inl e \<Rightarrow> ([Search query ''album''], Inl e)
      | Inr result \<Rightarrow>
          (case get_items result ''albums'' JNull of
             Inl e \<Rightarrow> ([Search query ''album''], Inl e)
           | Inr items \<Rightarrow>
               if truthy items then
                 (case first_item result ''albums'' of
                    Inl e \<Rightarrow> ([Search query ''album''], Inl e)
                  | Inr album_data \<Rightarrow>
                      (case py_getitem album_data ''id'' of
                         Inl e \<Rightarrow> ([Search query ''album''], Inl e)
                       | Inr album_id \<Rightarrow>
                           (case get_album env album_id of
                              Inl e \<Rightarrow> ([Search query ''album'', GetAlbum album_id], Inl e)
                            | Inr album \<Rightarrow>
                                ([Search query ''album'', GetAlbum album_id, DisplayAlbum album],
                                 case display_album env album of
                                   Some e \<Rightarrow> Inl e | None \<Rightarrow> Inr True))))
               else ([Search query ''album''], Inr False)))"

definition auto_artist :: "'r search_env \<Rightarrow> string \<Rightarrow> 'r event list \<times> (py_error + bool)" where
  "auto_artist env query =
     (case search env query ''artist'' of
        Inl e \<Rightarrow> ([Search query ''artist''], Inl e)
      | Inr result \<Rightarrow>
          (case get_items result ''artists'' JNull of
             Inl e \<Rightarrow> ([Search query ''artist''], Inl e)
           | Inr items \<Rightarrow>
               if truthy items then
                 (case first_item result ''artists'' of
                    Inl e \<Rightarrow> ([Search query ''artist''], Inl e)
                  | Inr artist_data \<Rightarrow>
                      (case py_getitem artist_data ''id'' of
                         Inl e \<Rightarrow> ([Search query ''artist''], Inl e)
                       | Inr artist_id \<Rightarrow>
                           (case get_artist env artist_id of
                              Inl e \<Rightarrow> ([Search query ''artist'', GetArtist artist_id], Inl e)
                            | Inr artist \<Rightarrow>
                                ([Search query ''artist'', GetArtist artist_id, DisplayArtist artist],
                                 case display_artist env artist of
                                   Some e \<Rightarrow> Inl e | None \<Rightarrow> Inr True))))
               else ([Search query ''artist''], Inr False)))"

text \<open>\<open>search_auto\<close>: every statement but the last \<open>print\<close> is inside a \<open>try\<close>.\<close>

definition search_auto :: "'r search_env \<Rightarrow> string \<Rightarrow> 'r event list" where
  "search_auto env query =
     (let (track_events, track_end) = auto_track env query
      in if track_end = Inr True then track_events
         else
           (let (album_events, album_end) = auto_album env query
            in if album_end = Inr True then track_events @ album_events
               else
                 (let (artist_events, artist_end) = auto_artist env query
                  in if artist_end = Inr True then track_events @ album_events @ artist_events
                     else track_events @ album_events @ artist_events
                          @ [Print (''No results found for: '' @ query)])))"

text \<open>
  \<open>search_specific\<close>: one \<open>try\<close> around the search and the \<open>if\<close>/\<open>elif\<close> chain; the
  handler of \<open>except Exception as e\<close> prints the failure and exits with status 1.
\<close>

definition search_failed :: "'r event list \<Rightarrow> py_error \<Rightarrow> 'r event list" where
  "search_failed events e = events @ [PrintSearchFailed e, Exit 1]"

definition search_specific :: "'r search_env \<Rightarrow> string \<Rightarrow> string \<Rightarrow> 'r event list" where
  "search_specific env query search_type =
     (case search env query search_type of
        Inl e \<Rightarrow> search_failed [Search query search_type] e
      | Inr result \<Rightarrow>
          if search_type = ''track'' then
            (case get_items result ''tracks'' (JList []) of
               Inl e \<Rightarrow> search_failed [Search query search_type] e
             | Inr tracks \<Rightarrow>
                 if truthy tracks then
                   (case py_first tracks of
                      Inl e \<Rightarrow> search_failed [Search query search_type] e
                    | Inr track_data \<Rightarrow>
                        (case parse_track env track_data of
                           Inl e \<Rightarrow> search_failed [Search query search_type] e
                         | Inr track \<Rightarrow>
                             (case display_track env track of
                                Some e \<Rightarrow>
                                  search_failed [Search query search_type, DisplayTrack track] e
                              | None \<Rightarrow> [Search query search_type, DisplayTrack track])))
                 else [Search query search_type, Print (''No tracks found for: '' @ query)])
          else if search_type = ''album'' then
            (case get_items result ''albums'' (JList []) of
               Inl e \<Rightarrow> search_failed [Search query search_type] e
             | Inr albums \<Rightarrow>
                 if truthy albums then
                   (case py_first albums of
                      Inl e \<Rightarrow> search_failed [Search query search_type] e
                    | Inr album_data \<Rightarrow>
                        (case py_getitem album_data ''id'' of
                           Inl e \<Rightarrow> search_failed [Search query search_type] e
                         | Inr album_id \<Rightarrow>
                             (case get_album env album_id of
                                Inl e \<Rightarrow>
                                  search_failed [Search query search_type, GetAlbum album_id] e
                              | Inr album \<Rightarrow>
                                  (case display_album env album of
                                     Some e \<Rightarrow>
                                       search_failed [Search query search_type, GetAlbum album_id,
                                                      DisplayAlbum album] e
                                   | None \<Rightarrow> [Search query search_type, GetAlbum album_id,
                                                DisplayAlbum album]))))
                 else [Search query search_type, Print (''No albums found for: '' @ query)])
          else if search_type = ''artist'' then
            (case get_items result ''artists'' (JList []) of
               Inl e \<Rightarrow> search_failed [Search query search_type] e
             | Inr artists \<Rightarrow>
                 if truthy artists then
                   (case py_first artists of
                      Inl e \<Rightarrow> search_failed [Search query search_type] e
                    | Inr artist_data \<Rightarrow>
                        (case py_getitem artist_data ''id'' of
                           Inl e \<Rightarrow> search_failed [Search query search_type] e
                         | Inr artist_id \<Rightarrow>
                             (case get_artist env artist_id of
                                Inl e \<Rightarrow>
                                  search_failed [Search query search_type, GetArtist artist_id] e
                              | Inr artist \<Rightarrow>
                                  (case display_artist env artist of
                                     Some e \<Rightarrow>
                                       search_failed [Search query search_type, GetArtist artist_id,
                                                      DisplayArtist artist] e
                                   | None \<Rightarrow> [Search query search_type, GetArtist artist_id,
                                                DisplayArtist artist]))))
                 else [Search query search_type, Print (''No artists found for: '' @ query)])
          else [Search query search_type])"

text \<open>Reading a trace: the searches asked, as (query, type), and the messages printed.\<close>

fun searches :: "'r event list \<Rightarrow> (string \<times> string) list" where
  "searches [] = []"
| "searches (Search query search_type # events) = (query, search_type) # searches events"
| "searches (_ # events) = searches events"

fun printed :: "'r event list \<Rightarrow> string list" where
  "printed [] = []"
| "printed (Print message # events) = message # printed events"
| "printed (_ # events) = printed events"

text \<open>
  An example client, used to run the handlers on concrete inputs: the search of the kind
  \<open>failing\<close> raises, the search of the kind \<open>hit\<close> finds one item, every other search
  finds none; the lookups and displays succeed.
\<close>

definition example_env :: "string \<Rightarrow> string \<Rightarrow> string search_env" where
  "example_env hit failing =
     \<lparr>search = (\<lambda>query search_type.
        if search_type = failing then Inl (OtherError ''ReadTimeout'')
        else if search_type = hit
        then Inr (JObj [(search_type @ ''s'', JObj [(''items'', JList [JObj [(''id'', JStr ''x1'')]])])])
        else Inr (JObj [(search_type @ ''s'', JObj [(''items'', JList [])])])),
      parse_track = (\<lambda>track_data. Inr ''a track''),
      get_album = (\<lambda>album_id. Inr ''an album''),
      get_artist = (\<lambda>artist_id. Inr ''an artist''),
      display_track = (\<lambda>track. None),
      display_album = (\<lambda>album. None),
      display_artist = (\<lambda>artist. None)\<rparr>"

section \<open>Ordinal dates\<close>














definition zero_fill :: "nat \<Rightarrow> string \<Rightarrow> string" where
  "zero_fill w s = replicate (w - length s) CHR ''0'' @ s"



section \<open>Durations\<close>

text \<open>
  A \<open>timedelta\<close> is its total number of microseconds. \<open>timedelta(milliseconds=ms)\<close>
  normalises to days, seconds and microseconds and raises \<open>OverflowError\<close> when the
  days are beyond 999999999 in magnitude.
\<close>

definition timedelta_milliseconds :: "int \<Rightarrow> py_error + int" where
  "timedelta_milliseconds ms =
     (let microseconds = ms * 1000;
          days = microseconds div 86400000000
      in if days < - 999999999 \<or> 999999999 < days then Inl OverflowError
         else Inr microseconds)"

text \<open>
  \<open>total_seconds()\<close> is the quotient of the microseconds by \<open>10**6\<close> as a float: the
  double nearest to the exact quotient, ties to the even mantissa. For a positive
  quotient \<open>n / d\<close> below \<open>2 ^ 53\<close> that double is \<open>m / 2 ^ k\<close>, where \<open>k\<close> is the
  least shift with \<open>2 ^ 52 \<le> n * 2 ^ k / d\<close> and \<open>m\<close> is \<open>n * 2 ^ k / d\<close> rounded to
  an integer. Every \<open>timedelta\<close> is below \<open>2 ^ 47\<close> seconds.
\<close>

definition round_half_even :: "nat \<Rightarrow> nat \<Rightarrow> nat" where
  "round_half_even n d =
     (let q = n div d; r = n mod d
      in if 2 * r < d then q
         else if d < 2 * r then q + 1
         else if even q then q else q + 1)"

function mantissa_shift :: "nat \<Rightarrow> nat \<Rightarrow> nat \<Rightarrow> nat" where
  "mantissa_shift n d k =
     (if n = 0 \<or> d * 2 ^ 52 \<le> n * 2 ^ k then k else mantissa_shift n d (Suc k))"
  by pat_completeness auto
termination
proof (relation "measure (\<lambda>(n, d, k). d * 2 ^ 52 - n * 2 ^ k)")
  fix n d k :: nat
  assume "\<not> (n = 0 \<or> d * 2 ^ 52 \<le> n * 2 ^ k)"
  then have "0 < n * 2 ^ k" and "n * 2 ^ k < d * 2 ^ 52" by simp_all
  moreover have "n * 2 ^ Suc k = 2 * (n * 2 ^ k)" by simp
  ultimately have "d * 2 ^ 52 - n * 2 ^ Suc k < d * 2 ^ 52 - n * 2 ^ k" by linarith
  then show "((n, d, Suc k), (n, d, k)) \<in> measure (\<lambda>(n, d, k). d * 2 ^ 52 - n * 2 ^ k)"
    by simp
qed simp

declare mantissa_shift.simps [simp del]

text \<open>\<open>int(n / d)\<close>: the float quotient, truncated.\<close>

definition int_true_div :: "nat \<Rightarrow> nat \<Rightarrow> nat" where
  "int_true_div n d =
     (if n = 0 then 0
      else (let k = mantissa_shift n d 0;
                m = round_half_even (n * 2 ^ k) d
            in m div 2 ^ k))"

text \<open>\<open>int(duration.total_seconds())\<close>: \<open>int\<close> truncates towards zero.\<close>

definition int_total_seconds :: "int \<Rightarrow> int" where
  "int_total_seconds duration =
     (if duration < 0 then - int (int_true_div (nat (- duration)) 1000000)
      else int (int_true_div (nat duration) 1000000))"

text \<open>The format \<open>02d\<close>: zeros up to the width 2, the sign included.\<close>

definition format_02d :: "int \<Rightarrow> string" where
  "format_02d n =
     (if n < 0 then CHR ''-'' # zero_fill 1 (str_nat (nat (- n)))
      else zero_fill 2 (str_nat (nat n)))"

text \<open>\<open>DisplayFormatter._format_duration\<close>.\<close>

definition format_duration :: "int \<Rightarrow> string" where
  "format_duration duration =
     (let total_seconds = int_total_seconds duration;
          minutes = total_seconds div 60;
          seconds = total_seconds mod 60
      in str_int minutes @ '':'' @ format_02d seconds)"

text \<open>
  The formatter as \<open>display_track\<close> and \<open>display_album\<close> call it,
  \<open>self._format_duration(timedelta(milliseconds=ms))\<close>.
\<close>

definition format_duration_ms :: "int \<Rightarrow> py_error + string" where
  "format_duration_ms ms =
     (case timedelta_milliseconds ms of
        Inl e \<Rightarrow> Inl e
      | Inr duration \<Rightarrow> Inr (format_duration duration))"

section \<open>Properties of info lines\<close>

lemma length_spaces: "length (spaces n) = nat n"
  by (simp add: spaces_def)

text \<open>
  Claim C6, as stated: the padding between label and value is
  \<open>max 2 (12 - length label)\<close> spaces. The code adds the minimum padding to the
  distance from the label width 12, so the label \<open>Name\<close> gets 10 spaces, not 8.
\<close>

theorem format_info_line_pad12_counterexample:
  "format_info_line ''Name'' ''x'' GREEN
     \<noteq> BOLD @ ''Name'' @ RESET @ spaces (max 2 (12 - int (length ''Name''))) @ GREEN @ ''x'' @ RESET"
  by (simp add: format_info_line_def spaces_def BOLD_def RESET_def GREEN_def ESC_def)

text \<open>
  Claim C6, amended: the info line is the bold label, a reset, exactly
  \<open>max 2 (14 - length label)\<close> spaces (the distance to width 12 plus the minimum
  padding 2, never fewer than 2), the colour code, the value and a reset; so for every
  label of at most 12 characters the value starts 14 printable columns after the start
  of the label.
\<close>

theorem format_info_line_padding:
  "format_info_line label val color
     = BOLD @ label @ RESET @ spaces (max 2 (14 - int (length label))) @ color @ val @ RESET
   \<and> (length label \<le> 12 \<longrightarrow>
        length label + length (spaces (max 2 (14 - int (length label)))) = 14)"
proof
  show "format_info_line label val color
     = BOLD @ label @ RESET @ spaces (max 2 (14 - int (length label))) @ color @ val @ RESET"
    by (simp add: format_info_line_def Let_def max_def)
  show "length label \<le> 12 \<longrightarrow>
        length label + length (spaces (max 2 (14 - int (length label)))) = 14"
    by (auto simp add: length_spaces max_def)
qed

theorem format_info_line_padding_witness:
  "length ''Name'' \<le> 12
   \<and> format_info_line ''Name'' ''x'' GREEN
       = BOLD @ ''Name'' @ RESET @ spaces 10 @ GREEN @ ''x'' @ RESET
   \<and> length ''Name'' + length (spaces 10) = 14"
  using format_info_line_padding [of "''Name''" "''x''" GREEN]
  by simp

section \<open>Properties of the compositor\<close>

lemma pad_info_eq:
  "pad_info info_lines t = info_lines @ replicate (nat (t - int (length info_lines))) []"
proof (induction info_lines t rule: pad_info.induct)
  case (1 info_lines t)
  show ?case
  proof (cases "int (length info_lines) < t")
    case True
    then have "nat (t - int (length info_lines)) = Suc (nat (t - int (length (info_lines @ [[]]))))"
      by simp
    with True "1.IH" show ?thesis
      by (subst pad_info.simps) (simp add: replicate_app_Cons_same)
  next
    case False
    then show ?thesis by (subst pad_info.simps) simp
  qed
qed

lemma content_row_padded:
  "content_row image_lines (info_lines @ replicate k []) (int i)
     = (if i < length image_lines then image_lines ! i else spaces 46) @ ''   ''
       @ (if i < length info_lines then info_lines ! i else [])"
  by (simp add: content_row_def nth_append)

lemma py_range_from_0: "py_range 0 t = map int [0..<nat t]"
  by (simp add: py_range_def)

lemma print_image_rows_in_range:
  "\<forall>i \<in> set is. 0 \<le> i \<and> i < int (length image_lines) \<Longrightarrow>
   print_image_rows image_lines is = (map (\<lambda>i. image_lines ! nat i @ ''   '') is, None)"
  by (induction "is") (auto simp: py_index_def)

lemma print_image_rows_drop:
  "print_image_rows image_lines (py_range (int a) (int (length image_lines)))
     = (map (\<lambda>l. l @ ''   '') (drop a image_lines), None)"
proof -
  have "print_image_rows image_lines (py_range (int a) (int (length image_lines)))
          = (map (\<lambda>i. image_lines ! nat i @ ''   '') (py_range (int a) (int (length image_lines))), None)"
    by (rule print_image_rows_in_range) (auto simp: py_range_def)
  moreover have "map (\<lambda>i. image_lines ! nat i @ ''   '') (py_range (int a) (int (length image_lines)))
          = map (\<lambda>l. l @ ''   '') (drop a image_lines)"
    by (rule nth_equalityI) (auto simp: py_range_def nat_add_distrib)
  ultimately show ?thesis by simp
qed

lemma display_rows_general:
  assumes "2 \<le> max (length image_lines) (length info_lines)"
  shows "display_side_by_side_with_links image_lines info_lines links =
    (map (\<lambda>i. (if i < length image_lines then image_lines ! i else spaces 46) @ ''   ''
               @ (if i < length info_lines then info_lines ! i else []))
         [0..<max (length image_lines) (length info_lines) - 2]
     @ (if links \<noteq> []
        then [(if max (length image_lines) (length info_lines) - 2 < length image_lines
               then image_lines ! (max (length image_lines) (length info_lines) - 2)
               else spaces 46) @ ''   '' @ link_line links]
             @ map (\<lambda>l. l @ ''   '') (drop (max (length image_lines) (length info_lines) - 1) image_lines)
        else map (\<lambda>l. l @ ''   '') (drop (max (length image_lines) (length info_lines) - 2) image_lines)),
     None)"
proof -
  define n where "n = max (length image_lines) (length info_lines)"
  have n2: "2 \<le> n" using assms by (simp add: n_def)
  have t: "max (int (length image_lines)) (int (length info_lines)) - 2 = int (n - 2)"
    using n2 by (simp add: n_def max_def)
  have t1: "int (n - 2) + 1 = int (n - 1)" using n2 by simp
  have idx: "int (n - 2) < int (length image_lines) \<Longrightarrow>
             py_index image_lines (int (n - 2)) = Inr (image_lines ! (n - 2))"
    by (simp add: py_index_def)
  show ?thesis
    unfolding display_side_by_side_with_links_def Let_def t t1 pad_info_eq py_range_from_0
      print_image_rows_drop n_def [symmetric]
    by (auto simp: content_row_padded o_def idx)
qed

lemma link_line_pair:
  assumes "contains ''spotify'' (lower cat)" "\<not> contains ''spotify'' (lower other)" "other \<noteq> []"
  shows "link_line [cat, other] = cat @ ''   '' @ other"
    and "link_line [other, cat] = cat @ ''   '' @ other"
proof -
  have "cat \<noteq> []" using assms(1) by (auto simp: lower_def)
  with assms show "link_line [cat, other] = cat @ ''   '' @ other"
    and "link_line [other, cat] = cat @ ''   '' @ other"
    by (simp_all add: link_line_def)
qed

lemma display_rows_20_8_2:
  assumes "length image_lines = 20" "length info_lines = 8"
    and "contains ''spotify'' (lower cat)" "\<not> contains ''spotify'' (lower other)" "other \<noteq> []"
    and "links = [cat, other] \<or> links = [other, cat]"
  shows "display_side_by_side_with_links image_lines info_lines links =
    (map (\<lambda>i. image_lines ! i @ ''   '' @ (if i < 8 then info_lines ! i else [])) [0..<18]
     @ [image_lines ! 18 @ ''   '' @ cat @ ''   '' @ other, image_lines ! 19 @ ''   ''], None)"
proof -
  have ll: "link_line links = cat @ ''   '' @ other" and ne: "links \<noteq> []"
    using assms(3-6) link_line_pair [of cat other] by auto
  have d: "drop 19 image_lines = [image_lines ! 19]"
    using assms(1) Cons_nth_drop_Suc [of 19 image_lines] by simp
  have "2 \<le> max (length image_lines) (length info_lines)" using assms by simp
  from display_rows_general [OF this, of links] show ?thesis
    using assms(1,2) ll ne d by simp
qed

lemma display_row_count:
  assumes "2 \<le> max (length image_lines) (length info_lines)"
  shows "length (fst (display_side_by_side_with_links image_lines info_lines links)) =
     (if links = [] then max (max (length image_lines) (length info_lines) - 2) (length image_lines)
      else max (max (length image_lines) (length info_lines) - 1) (length image_lines))"
  using assms by (auto simp: display_rows_general max_def)

lemma display_content_rows:
  assumes "2 \<le> max (length image_lines) (length info_lines)"
  shows "take (max (length image_lines) (length info_lines) - 2)
           (fst (display_side_by_side_with_links image_lines info_lines links))
         = map (\<lambda>i. (if i < length image_lines then image_lines ! i else spaces 46) @ ''   ''
               @ (if i < length info_lines then info_lines ! i else []))
             [0..<max (length image_lines) (length info_lines) - 2]"
  using assms by (simp add: display_rows_general)

lemma display_info_longer_1:
  assumes "length image_lines < length info_lines" "length info_lines < 2"
  shows "display_side_by_side_with_links image_lines info_lines links = ([], Some IndexError)"
proof -
  from assms have "length image_lines = 0" and l: "length info_lines = 1" by arith+
  then have i: "image_lines = []" by simp
  show ?thesis
    by (simp add: display_side_by_side_with_links_def Let_def i l py_range_def py_index_def pad_info_eq)
qed

lemma display_info_longer:
  assumes "length image_lines < length info_lines"
  shows "fst (display_side_by_side_with_links image_lines info_lines links) =
     map (\<lambda>i. (if i < length image_lines then image_lines ! i else spaces 46) @ ''   '' @ info_lines ! i)
         [0..<length info_lines - 2]
     @ (if length info_lines < 2 then []
        else if links \<noteq> []
        then [(if length info_lines - 2 < length image_lines
               then image_lines ! (length info_lines - 2) else spaces 46) @ ''   '' @ link_line links]
        else map (\<lambda>l. l @ ''   '') (drop (length info_lines - 2) image_lines))"
proof (cases "length info_lines < 2")
  case True
  with assms show ?thesis by (simp add: display_info_longer_1)
next
  case False
  with assms have m: "max (length image_lines) (length info_lines) = length info_lines"
    and "2 \<le> max (length image_lines) (length info_lines)" by auto
  from display_rows_general [OF this(2), of links] show ?thesis
    using assms False unfolding m by auto
qed

lemma display_info_tail_irrelevant:
  assumes "length image_lines < length info_lines"
    and "length info' = length info_lines"
    and "take (length info_lines - 2) info' = take (length info_lines - 2) info_lines"
  shows "display_side_by_side_with_links image_lines info' links
         = display_side_by_side_with_links image_lines info_lines links"
proof (cases "length info_lines < 2")
  case True
  with assms show ?thesis by (simp add: display_info_longer_1)
next
  case False
  have nth: "info' ! i = info_lines ! i" if "i < length info_lines - 2" for i
    using that assms(3) by (metis nth_take)
  from False assms have m: "max (length image_lines) (length info_lines) = length info_lines"
    "max (length image_lines) (length info') = length info_lines"
    and g: "2 \<le> max (length image_lines) (length info_lines)"
      "2 \<le> max (length image_lines) (length info')" by auto
  show ?thesis
    unfolding display_rows_general [OF g(1)] display_rows_general [OF g(2)] m
    using assms(2) by (auto simp: nth)
qed

text \<open>
  Claim C2: with 20 image lines, 8 info lines and two links (one catalog link, whose
  lower-cased text contains \<open>spotify\<close>, and one non-empty other link, in either order),
  exactly 20 rows are printed: 18 content rows (image line, 3 spaces, info line, the
  info line empty from row 8 on), one link row beside image row 18 joining the catalog
  link and the other link with 3 spaces, and one trailing image-only row. In general,
  when the longer sequence has at least 2 lines, the number of content rows is
  \<open>max (len image) (len info) - 2\<close>: the compositor returns without an exception, its
  first rows are these content rows, with a 46-column blank or an empty string where a
  sequence has ended, and the number of rows printed follows from the two lengths,
  whichever sequence is longer.
\<close>

theorem display_side_by_side_rows:
  "(length image_lines = 20 \<and> length info_lines = 8
      \<and> contains ''spotify'' (lower cat) \<and> \<not> contains ''spotify'' (lower other) \<and> other \<noteq> []
      \<and> (links = [cat, other] \<or> links = [other, cat])
    \<longrightarrow> display_side_by_side_with_links image_lines info_lines links =
          (map (\<lambda>i. image_lines ! i @ ''   '' @ (if i < 8 then info_lines ! i else [])) [0..<18]
           @ [image_lines ! 18 @ ''   '' @ cat @ ''   '' @ other, image_lines ! 19 @ ''   ''], None)
        \<and> length (fst (display_side_by_side_with_links image_lines info_lines links)) = 20)
   \<and> (2 \<le> max (length image_lines) (length info_lines)
    \<longrightarrow> snd (display_side_by_side_with_links image_lines info_lines links) = None
        \<and> take (max (length image_lines) (length info_lines) - 2)
             (fst (display_side_by_side_with_links image_lines info_lines links))
           = map (\<lambda>i. (if i < length image_lines then image_lines ! i else spaces 46) @ ''   ''
                      @ (if i < length info_lines then info_lines ! i else []))
               [0..<max (length image_lines) (length info_lines) - 2]
        \<and> length (fst (display_side_by_side_with_links image_lines info_lines links)) =
            (if links = [] then max (max (length image_lines) (length info_lines) - 2) (length image_lines)
             else max (max (length image_lines) (length info_lines) - 1) (length image_lines)))"
proof (intro conjI impI)
  assume h: "length image_lines = 20 \<and> length info_lines = 8
      \<and> contains ''spotify'' (lower cat) \<and> \<not> contains ''spotify'' (lower other) \<and> other \<noteq> []
      \<and> (links = [cat, other] \<or> links = [other, cat])"
  then show e: "display_side_by_side_with_links image_lines info_lines links =
          (map (\<lambda>i. image_lines ! i @ ''   '' @ (if i < 8 then info_lines ! i else [])) [0..<18]
           @ [image_lines ! 18 @ ''   '' @ cat @ ''   '' @ other, image_lines ! 19 @ ''   ''], None)"
    by (intro display_rows_20_8_2) simp_all
  show "length (fst (display_side_by_side_with_links image_lines info_lines links)) = 20"
    unfolding e by simp
next
  assume g: "2 \<le> max (length image_lines) (length info_lines)"
  show "snd (display_side_by_side_with_links image_lines info_lines links) = None"
    by (simp add: display_rows_general [OF g])
  show "take (max (length image_lines) (length info_lines) - 2)
             (fst (display_side_by_side_with_links image_lines info_lines links))
           = map (\<lambda>i. (if i < length image_lines then image_lines ! i else spaces 46) @ ''   ''
                      @ (if i < length info_lines then info_lines ! i else []))
               [0..<max (length image_lines) (length info_lines) - 2]"
    by (rule display_content_rows [OF g])
  show "length (fst (display_side_by_side_with_links image_lines info_lines links)) =
            (if links = [] then max (max (length image_lines) (length info_lines) - 2) (length image_lines)
             else max (max (length image_lines) (length info_lines) - 1) (length image_lines))"
    by (rule display_row_count [OF g])
qed

theorem display_side_by_side_rows_witness:
  "length (replicate 20 ''#'') = 20 \<and> length (replicate 8 ''i'') = 8
   \<and> contains ''spotify'' (lower ''Spotify'') \<and> \<not> contains ''spotify'' (lower ''Album Cover'')
   \<and> ''Album Cover'' \<noteq> []
   \<and> 2 \<le> max (length (replicate 20 ''#'')) (length (replicate 8 ''i''))
   \<and> display_side_by_side_with_links (replicate 20 ''#'') (replicate 8 ''i'') [''Album Cover'', ''Spotify'']
      = (replicate 8 ''#   i'' @ replicate 10 ''#   '' @ [''#   Spotify   Album Cover'', ''#   ''], None)
   \<and> length (fst (display_side_by_side_with_links (replicate 20 ''#'') (replicate 8 ''i'')
                     [''Album Cover'', ''Spotify''])) = 20"
proof -
  have c: "contains ''spotify'' (lower ''Spotify'')" by code_simp
  have o: "\<not> contains ''spotify'' (lower ''Album Cover'')" by code_simp
  have m: "map (\<lambda>i. replicate 20 ''#'' ! i @ ''   '' @ (if i < 8 then replicate 8 ''i'' ! i else []))
             [0..<18] = replicate 8 ''#   i'' @ replicate 10 ''#   ''"
    by (rule nth_equalityI) (auto simp: nth_append)
  from display_side_by_side_rows
         [of "replicate 20 ''#''" "replicate 8 ''i''" "''Spotify''" "''Album Cover''"
             "[''Album Cover'', ''Spotify'']"] c o
  show ?thesis unfolding m by simp
qed

text \<open>
  Claim C9: whenever there are more info lines than image lines, the rows printed are
  the content rows of the first \<open>len info - 2\<close> info lines, followed only by the link
  row or the remaining image rows, none of which holds an info line; so the last two
  info lines have no effect on what the compositor does.
\<close>

theorem display_drops_last_info_lines:
  "length image_lines < length info_lines \<Longrightarrow>
   fst (display_side_by_side_with_links image_lines info_lines links) =
     map (\<lambda>i. (if i < length image_lines then image_lines ! i else spaces 46) @ ''   '' @ info_lines ! i)
         [0..<length info_lines - 2]
     @ (if length info_lines < 2 then []
        else if links \<noteq> []
        then [(if length info_lines - 2 < length image_lines
               then image_lines ! (length info_lines - 2) else spaces 46) @ ''   '' @ link_line links]
        else map (\<lambda>l. l @ ''   '') (drop (length info_lines - 2) image_lines))
   \<and> (\<forall>info'. length info' = length info_lines
               \<and> take (length info_lines - 2) info' = take (length info_lines - 2) info_lines
        \<longrightarrow> display_side_by_side_with_links image_lines info' links
            = display_side_by_side_with_links image_lines info_lines links)"
  using display_info_longer [of image_lines info_lines links]
    display_info_tail_irrelevant [of image_lines info_lines _ links]
  by blast

theorem display_drops_last_info_lines_witness:
  "length [''a'', ''b'', ''c''] < length [''w'', ''x'', ''y'', ''z'']
   \<and> fst (display_side_by_side_with_links [''a'', ''b'', ''c''] [''w'', ''x'', ''y'', ''z''] [''Spotify''])
      = [''a   w'', ''b   x'', ''c   Spotify'']
   \<and> display_side_by_side_with_links [''a'', ''b'', ''c''] [''w'', ''x'', ''p'', ''q''] [''Spotify'']
      = display_side_by_side_with_links [''a'', ''b'', ''c''] [''w'', ''x'', ''y'', ''z''] [''Spotify'']"
proof (intro conjI)
  show h: "length [''a'', ''b'', ''c''] < length [''w'', ''x'', ''y'', ''z'']" by simp
  have l: "link_line [''Spotify''] = ''Spotify''" by code_simp
  note t = display_drops_last_info_lines [OF h, of "[''Spotify'']"]
  show "fst (display_side_by_side_with_links [''a'', ''b'', ''c''] [''w'', ''x'', ''y'', ''z''] [''Spotify''])
      = [''a   w'', ''b   x'', ''c   Spotify'']"
    unfolding t [THEN conjunct1] by (simp add: l)
  show "display_side_by_side_with_links [''a'', ''b'', ''c''] [''w'', ''x'', ''p'', ''q''] [''Spotify'']
      = display_side_by_side_with_links [''a'', ''b'', ''c''] [''w'', ''x'', ''y'', ''z''] [''Spotify'']"
    by (rule t [THEN conjunct2, rule_format]) simp
qed

section \<open>Properties of the image renderer\<close>

lemma pad_lines_eq:
  "pad_lines lines h blank = lines @ replicate (nat (h - int (length lines))) blank"
proof (induction lines h blank rule: pad_lines.induct)
  case (1 lines h blank)
  show ?case
  proof (cases "int (length lines) < h")
    case True
    then have "nat (h - int (length lines)) = Suc (nat (h - int (length (lines @ [blank]))))"
      by simp
    with True "1.IH" show ?thesis
      by (subst pad_lines.simps) (simp add: replicate_app_Cons_same)
  next
    case False
    then show ?thesis by (subst pad_lines.simps) simp
  qed
qed

lemma length_placeholder_box: "length placeholder_box = 8"
  by (simp add: placeholder_box_def)

lemma get_placeholder_lines_eq:
  "get_placeholder_lines = placeholder_box @ replicate 12 (replicate 33 CHR '' '')"
proof -
  have "nat (20 - int (length placeholder_box)) = 12"
    by (simp add: length_placeholder_box)
  then show ?thesis
    unfolding get_placeholder_lines_def pad_lines_eq spaces_def by (simp only: nat_numeral)
qed

lemma length_get_placeholder_lines: "length get_placeholder_lines = 20"
  unfolding get_placeholder_lines_eq by (simp add: length_placeholder_box)



lemma split_on_not_Nil: "split_on sep s \<noteq> []"
  by (induction s) (auto split: list.splits)

lemma length_fit_height:
  assumes "0 \<le> h"
  shows "length (if int (length (pad_lines ls h b)) > h
                 then py_take h (pad_lines ls h b) else pad_lines ls h b) = nat h"
proof -
  have l: "length (pad_lines ls h b) = max (length ls) (nat h)"
    unfolding pad_lines_eq by (simp add: max_def) arith
  show ?thesis
  proof (cases "int (length (pad_lines ls h b)) > h")
    case True
    with assms have "nat h \<le> length (pad_lines ls h b)" by arith
    with True assms show ?thesis by (simp add: py_take_def)
  next
    case False
    with assms have "length (pad_lines ls h b) \<le> nat h" by arith
    with l have "length (pad_lines ls h b) = nat h" by arith
    with False show ?thesis by simp
  qed
qed

lemma render_with_chafa_length:
  assumes "render_with_chafa env self image_url = Some lines" "0 \<le> height self"
  shows "length lines = nat (height self)"
proof -
  from assms(1) have "\<exists>ls b. lines = (if int (length (pad_lines ls (height self) b)) > height self
              then py_take (height self) (pad_lines ls (height self) b)
              else pad_lines ls (height self) b)"
    unfolding render_with_chafa_def Let_def
    by (auto split: option.splits if_splits sum.splits)
  then obtain ls b where "lines = (if int (length (pad_lines ls (height self) b)) > height self
              then py_take (height self) (pad_lines ls (height self) b)
              else pad_lines ls (height self) b)"
    by blast
  then show ?thesis using length_fit_height [OF assms(2), of ls b] by simp
qed

lemma get_block_art_lines_length:
  assumes "get_block_art_lines env self img = Inr lines"
  shows "length lines = nat (height self)"
  using assms by (auto simp: get_block_art_lines_def py_range_def split: sum.splits)

lemma render_fallback_placeholder:
  assumes "download_image env image_url = Inl e
           \<or> (\<exists>img. download_image env image_url = Inr img \<and> get_block_art_lines env self img = Inl e)"
  shows "render_fallback env self image_url = get_placeholder_lines"
  using assms by (auto simp: render_fallback_def)

lemma get_placeholder_lines_literal:
  "get_placeholder_lines =
     [CHR '' '' # CHR 0x1B # ''[37m'' @ [CHR 0xE2, CHR 0x94, CHR 0x8C] @ concat (replicate 31 [CHR 0xE2, CHR 0x94, CHR 0x80])
        @ [CHR 0xE2, CHR 0x94, CHR 0x90] @ CHR 0x1B # ''[0m'',
      CHR '' '' # CHR 0x1B # ''[37m'' @ [CHR 0xE2, CHR 0x94, CHR 0x82] @ replicate 31 CHR '' ''
        @ [CHR 0xE2, CHR 0x94, CHR 0x82] @ CHR 0x1B # ''[0m'',
      CHR '' '' # CHR 0x1B # ''[37m'' @ [CHR 0xE2, CHR 0x94, CHR 0x82] @ replicate 31 CHR '' ''
        @ [CHR 0xE2, CHR 0x94, CHR 0x82] @ CHR 0x1B # ''[0m'',
      CHR '' '' # CHR 0x1B # ''[37m'' @ [CHR 0xE2, CHR 0x94, CHR 0x82] @ replicate 11 CHR '' '' @ ''NO IMAGE'' @ replicate 12 CHR '' ''
        @ [CHR 0xE2, CHR 0x94, CHR 0x82] @ CHR 0x1B # ''[0m'',
      CHR '' '' # CHR 0x1B # ''[37m'' @ [CHR 0xE2, CHR 0x94, CHR 0x82] @ replicate 11 CHR '' '' @ ''AVAILABLE'' @ replicate 11 CHR '' ''
        @ [CHR 0xE2, CHR 0x94, CHR 0x82] @ CHR 0x1B # ''[0m'',
      CHR '' '' # CHR 0x1B # ''[37m'' @ [CHR 0xE2, CHR 0x94, CHR 0x82] @ replicate 31 CHR '' ''
        @ [CHR 0xE2, CHR 0x94, CHR 0x82] @ CHR 0x1B # ''[0m'',
      CHR '' '' # CHR 0x1B # ''[37m'' @ [CHR 0xE2, CHR 0x94, CHR 0x82] @ replicate 31 CHR '' ''
        @ [CHR 0xE2, CHR 0x94, CHR 0x82] @ CHR 0x1B # ''[0m'',
      CHR '' '' # CHR 0x1B # ''[37m'' @ [CHR 0xE2, CHR 0x94, CHR 0x94] @ concat (replicate 31 [CHR 0xE2, CHR 0x94, CHR 0x80])
        @ [CHR 0xE2, CHR 0x94, CHR 0x98] @ CHR 0x1B # ''[0m'']
     @ replicate 12 (replicate 33 CHR '' '')"
  unfolding get_placeholder_lines_eq placeholder_box_def WHITE_def RESET_def ESC_def
    BOX_DOWN_RIGHT_def BOX_HORIZONTAL_def BOX_DOWN_LEFT_def BOX_VERTICAL_def
    BOX_UP_RIGHT_def BOX_UP_LEFT_def
  by (simp add: eval_nat_numeral)

text \<open>
  Claim C5: with an empty image URL, and whenever the fallback path is reached (chafa
  is not available, or its rendering gave nothing) and the download, the decoding or
  the conversion of the image fails there, \<open>render_image_lines\<close> returns the fixed
  placeholder grid. The grid is written out below, character by character (the escape
  for white, the box-drawing glyphs in UTF-8, the reset): a top border of 31
  horizontals between two corners, two blank rows between verticals, the rows
  \<open>NO IMAGE\<close> and \<open>AVAILABLE\<close> centred in the 31 inner columns, two more blank rows, the
  bottom border, and then 12 blank lines of 33 spaces, 20 lines in all.
\<close>

theorem render_image_lines_placeholder:
  "(image_url = [] \<longrightarrow> render_image_lines env self image_url = Inr get_placeholder_lines)
   \<and> (image_url \<noteq> []
        \<and> (is_chafa_available env = Inr False
             \<or> is_chafa_available env = Inr True
                \<and> (render_with_chafa env self image_url = None
                     \<or> render_with_chafa env self image_url = Some []))
        \<and> (download_image env image_url = Inl e
             \<or> (\<exists>img. download_image env image_url = Inr img
                       \<and> get_block_art_lines env self img = Inl e))
      \<longrightarrow> render_image_lines env self image_url = Inr get_placeholder_lines)
   \<and> get_placeholder_lines =
     [CHR '' '' # CHR 0x1B # ''[37m'' @ [CHR 0xE2, CHR 0x94, CHR 0x8C] @ concat (replicate 31 [CHR 0xE2, CHR 0x94, CHR 0x80])
        @ [CHR 0xE2, CHR 0x94, CHR 0x90] @ CHR 0x1B # ''[0m'',
      CHR '' '' # CHR 0x1B # ''[37m'' @ [CHR 0xE2, CHR 0x94, CHR 0x82] @ replicate 31 CHR '' ''
        @ [CHR 0xE2, CHR 0x94, CHR 0x82] @ CHR 0x1B # ''[0m'',
      CHR '' '' # CHR 0x1B # ''[37m'' @ [CHR 0xE2, CHR 0x94, CHR 0x82] @ replicate 31 CHR '' ''
        @ [CHR 0xE2, CHR 0x94, CHR 0x82] @ CHR 0x1B # ''[0m'',
      CHR '' '' # CHR 0x1B # ''[37m'' @ [CHR 0xE2, CHR 0x94, CHR 0x82] @ replicate 11 CHR '' '' @ ''NO IMAGE'' @ replicate 12 CHR '' ''
        @ [CHR 0xE2, CHR 0x94, CHR 0x82] @ CHR 0x1B # ''[0m'',
      CHR '' '' # CHR 0x1B # ''[37m'' @ [CHR 0xE2, CHR 0x94, CHR 0x82] @ replicate 11 CHR '' '' @ ''AVAILABLE'' @ replicate 11 CHR '' ''
        @ [CHR 0xE2, CHR 0x94, CHR 0x82] @ CHR 0x1B # ''[0m'',
      CHR '' '' # CHR 0x1B # ''[37m'' @ [CHR 0xE2, CHR 0x94, CHR 0x82] @ replicate 31 CHR '' ''
        @ [CHR 0xE2, CHR 0x94, CHR 0x82] @ CHR 0x1B # ''[0m'',
      CHR '' '' # CHR 0x1B # ''[37m'' @ [CHR 0xE2, CHR 0x94, CHR 0x82] @ replicate 31 CHR '' ''
        @ [CHR 0xE2, CHR 0x94, CHR 0x82] @ CHR 0x1B # ''[0m'',
      CHR '' '' # CHR 0x1B # ''[37m'' @ [CHR 0xE2, CHR 0x94, CHR 0x94] @ concat (replicate 31 [CHR 0xE2, CHR 0x94, CHR 0x80])
        @ [CHR 0xE2, CHR 0x94, CHR 0x98] @ CHR 0x1B # ''[0m'']
     @ replicate 12 (replicate 33 CHR '' '')
   \<and> length get_placeholder_lines = 20"
proof (intro conjI impI)
  assume "image_url = []"
  then show "render_image_lines env self image_url = Inr get_placeholder_lines"
    by (simp add: render_image_lines_def)
next
  assume h: "image_url \<noteq> []
        \<and> (is_chafa_available env = Inr False
             \<or> is_chafa_available env = Inr True
                \<and> (render_with_chafa env self image_url = None
                     \<or> render_with_chafa env self image_url = Some []))
        \<and> (download_image env image_url = Inl e
             \<or> (\<exists>img. download_image env image_url = Inr img
                       \<and> get_block_art_lines env self img = Inl e))"
  then have f: "render_fallback env self image_url = get_placeholder_lines"
    by (intro render_fallback_placeholder [of env image_url e self]) blast
  from h show "render_image_lines env self image_url = Inr get_placeholder_lines"
    by (auto simp: render_image_lines_def f)
next
  show "get_placeholder_lines =
     [CHR '' '' # CHR 0x1B # ''[37m'' @ [CHR 0xE2, CHR 0x94, CHR 0x8C] @ concat (replicate 31 [CHR 0xE2, CHR 0x94, CHR 0x80])
        @ [CHR 0xE2, CHR 0x94, CHR 0x90] @ CHR 0x1B # ''[0m'',
      CHR '' '' # CHR 0x1B # ''[37m'' @ [CHR 0xE2, CHR 0x94, CHR 0x82] @ replicate 31 CHR '' ''
        @ [CHR 0xE2, CHR 0x94, CHR 0x82] @ CHR 0x1B # ''[0m'',
      CHR '' '' # CHR 0x1B # ''[37m'' @ [CHR 0xE2, CHR 0x94, CHR 0x82] @ replicate 31 CHR '' ''
        @ [CHR 0xE2, CHR 0x94, CHR 0x82] @ CHR 0x1B # ''[0m'',
      CHR '' '' # CHR 0x1B # ''[37m'' @ [CHR 0xE2, CHR 0x94, CHR 0x82] @ replicate 11 CHR '' '' @ ''NO IMAGE'' @ replicate 12 CHR '' ''
        @ [CHR 0xE2, CHR 0x94, CHR 0x82] @ CHR 0x1B # ''[0m'',
      CHR '' '' # CHR 0x1B # ''[37m'' @ [CHR 0xE2, CHR 0x94, CHR 0x82] @ replicate 11 CHR '' '' @ ''AVAILABLE'' @ replicate 11 CHR '' ''
        @ [CHR 0xE2, CHR 0x94, CHR 0x82] @ CHR 0x1B # ''[0m'',
      CHR '' '' # CHR 0x1B # ''[37m'' @ [CHR 0xE2, CHR 0x94, CHR 0x82] @ replicate 31 CHR '' ''
        @ [CHR 0xE2, CHR 0x94, CHR 0x82] @ CHR 0x1B # ''[0m'',
      CHR '' '' # CHR 0x1B # ''[37m'' @ [CHR 0xE2, CHR 0x94, CHR 0x82] @ replicate 31 CHR '' ''
        @ [CHR 0xE2, CHR 0x94, CHR 0x82] @ CHR 0x1B # ''[0m'',
      CHR '' '' # CHR 0x1B # ''[37m'' @ [CHR 0xE2, CHR 0x94, CHR 0x94] @ concat (replicate 31 [CHR 0xE2, CHR 0x94, CHR 0x80])
        @ [CHR 0xE2, CHR 0x94, CHR 0x98] @ CHR 0x1B # ''[0m'']
     @ replicate 12 (replicate 33 CHR '' '')"
    by (rule get_placeholder_lines_literal)
  show "length get_placeholder_lines = 20" by (rule length_get_placeholder_lines)
qed

theorem render_image_lines_placeholder_witness:
  "render_image_lines
     \<lparr>chafa_version = Some FileNotFoundError, download_to_temp = (\<lambda>u. None),
      chafa_run = (\<lambda>f w h. Inl CalledProcessError),
      download_image = (\<lambda>u. Inl (OtherError ''ConnectionError'')),
      fit_rgb = (\<lambda>(img :: unit) w h. Inl ValueError)\<rparr>
     (ImageRenderer 20) [] = Inr get_placeholder_lines
   \<and> ''http://x'' \<noteq> []
   \<and> is_chafa_available
       \<lparr>chafa_version = Some FileNotFoundError, download_to_temp = (\<lambda>u. None),
        chafa_run = (\<lambda>f w h. Inl CalledProcessError),
        download_image = (\<lambda>u. Inl (OtherError ''ConnectionError'')),
        fit_rgb = (\<lambda>(img :: unit) w h. Inl ValueError)\<rparr> = Inr False
   \<and> render_image_lines
       \<lparr>chafa_version = Some FileNotFoundError, download_to_temp = (\<lambda>u. None),
        chafa_run = (\<lambda>f w h. Inl CalledProcessError),
        download_image = (\<lambda>u. Inl (OtherError ''ConnectionError'')),
        fit_rgb = (\<lambda>(img :: unit) w h. Inl ValueError)\<rparr>
       (ImageRenderer 20) ''http://x'' = Inr get_placeholder_lines"
  using render_image_lines_placeholder
    [of "[]" "\<lparr>chafa_version = Some FileNotFoundError, download_to_temp = (\<lambda>u. None),
          chafa_run = (\<lambda>f w h. Inl CalledProcessError),
          download_image = (\<lambda>u. Inl (OtherError ''ConnectionError'')),
          fit_rgb = (\<lambda>(img :: unit) w h. Inl ValueError)\<rparr>" "ImageRenderer 20"]
    render_image_lines_placeholder
    [of "''http://x''" "\<lparr>chafa_version = Some FileNotFoundError, download_to_temp = (\<lambda>u. None),
          chafa_run = (\<lambda>f w h. Inl CalledProcessError),
          download_image = (\<lambda>u. Inl (OtherError ''ConnectionError'')),
          fit_rgb = (\<lambda>(img :: unit) w h. Inl ValueError)\<rparr>" "ImageRenderer 20"
        "OtherError ''ConnectionError''"]
  by (simp add: is_chafa_available_def)

text \<open>
  Claim C1 says that every path of \<open>render_image_lines\<close> returns exactly \<open>height\<close>
  lines. The external renderer and the block-art fallback do (the two lemmas above);
  the placeholder does not: \<open>_get_placeholder_lines\<close> pads "to match image height"
  up to the constant 20. A renderer of size 15 whose download fails returns 20 lines.
\<close>

theorem render_image_lines_size_15_download_fails:
  "render_image_lines
     \<lparr>chafa_version = Some FileNotFoundError, download_to_temp = (\<lambda>u. None),
      chafa_run = (\<lambda>f w h. Inl CalledProcessError),
      download_image = (\<lambda>u. Inl (OtherError ''ConnectionError'')),
      fit_rgb = (\<lambda>(img :: unit) w h. Inl ValueError)\<rparr>
     (ImageRenderer 15) ''http://x'' = Inr get_placeholder_lines
   \<and> length get_placeholder_lines = 20
   \<and> height (ImageRenderer 15) = 15"
  by (simp add: render_image_lines_def is_chafa_available_def render_fallback_def
        length_get_placeholder_lines ImageRenderer_def)

section \<open>Properties of authentication\<close>

lemma authenticate_valid:
  "time_at_check env < token_expiry self \<Longrightarrow> authenticate env self = ([], self, None)"
  by (simp add: authenticate_def)

lemma authenticate_request:
  "\<not> time_at_check env < token_expiry self \<Longrightarrow>
   fst (authenticate env self) =
     [\<lparr>request_url = auth_url,
       authorization = ''Basic '' @ b64encode env (client_id self @ '':'' @ client_secret self),
       content_type = ''application/x-www-form-urlencoded'',
       form_data = [(''grant_type'', ''client_credentials'')]\<rparr>]"
  by (simp add: authenticate_def Let_def split: sum.splits)

lemma authenticate_success:
  assumes "\<not> time_at_check env < token_expiry self"
    and "post env \<lparr>request_url = auth_url,
       authorization = ''Basic '' @ b64encode env (client_id self @ '':'' @ client_secret self),
       content_type = ''application/x-www-form-urlencoded'',
       form_data = [(''grant_type'', ''client_credentials'')]\<rparr> = Inr response"
    and "status_code response = 200"
    and "response_json response = Inr token_data"
    and "py_getitem token_data ''access_token'' = Inr token"
    and "py_getitem token_data ''expires_in'' = Inr expires_in"
    and "py_number expires_in = Inr seconds"
  shows "snd (authenticate env self) =
           (self\<lparr>access_token := Some token, token_expiry := time_at_store env + seconds\<rparr>, None)"
  using assms by (simp add: authenticate_def Let_def)

lemma authenticate_failure:
  assumes "\<not> time_at_check env < token_expiry self"
    and "post env \<lparr>request_url = auth_url,
       authorization = ''Basic '' @ b64encode env (client_id self @ '':'' @ client_secret self),
       content_type = ''application/x-www-form-urlencoded'',
       form_data = [(''grant_type'', ''client_credentials'')]\<rparr> = Inr response"
    and "status_code response \<noteq> 200"
  shows "snd (authenticate env self) =
           (self, Some (Exception (''Authentication failed: '' @ str_int (status_code response)
                                   @ '' - '' @ response_text response)))"
  using assms by (simp add: authenticate_def Let_def)

text \<open>
  Claim C7: \<open>_authenticate\<close> is lazy. While the clock is before the cached expiry it
  sends no request and leaves the client as it is. Otherwise (a new client has expiry
  0, so it has expired at any time from the epoch on) it sends exactly one token request
  with the client credentials; a response of status 200 with a token and a lifetime sets
  the cached token and the expiry (the time of storing plus the lifetime); any other
  status raises an exception whose message carries the status code and the response
  body, and leaves the client as it is.
\<close>

theorem authenticate_lazy:
  "(time_at_check env < token_expiry self \<longrightarrow> authenticate env self = ([], self, None))
   \<and> (\<not> time_at_check env < token_expiry self \<longrightarrow>
        fst (authenticate env self) =
          [\<lparr>request_url = auth_url,
            authorization = ''Basic '' @ b64encode env (client_id self @ '':'' @ client_secret self),
            content_type = ''application/x-www-form-urlencoded'',
            form_data = [(''grant_type'', ''client_credentials'')]\<rparr>])
   \<and> (0 \<le> time_at_check env \<longrightarrow> fst (authenticate env (SpotifyClient cid secret)) \<noteq> [])
   \<and> (\<not> time_at_check env < token_expiry self
        \<and> post env \<lparr>request_url = auth_url,
             authorization = ''Basic '' @ b64encode env (client_id self @ '':'' @ client_secret self),
             content_type = ''application/x-www-form-urlencoded'',
             form_data = [(''grant_type'', ''client_credentials'')]\<rparr> = Inr response
        \<and> status_code response = 200
        \<and> response_json response = Inr token_data
        \<and> py_getitem token_data ''access_token'' = Inr token
        \<and> py_getitem token_data ''expires_in'' = Inr expires_in
        \<and> py_number expires_in = Inr seconds
      \<longrightarrow> snd (authenticate env self) =
           (self\<lparr>access_token := Some token, token_expiry := time_at_store env + seconds\<rparr>, None))
   \<and> (\<not> time_at_check env < token_expiry self
        \<and> post env \<lparr>request_url = auth_url,
             authorization = ''Basic '' @ b64encode env (client_id self @ '':'' @ client_secret self),
             content_type = ''application/x-www-form-urlencoded'',
             form_data = [(''grant_type'', ''client_credentials'')]\<rparr> = Inr response
        \<and> status_code response \<noteq> 200
      \<longrightarrow> snd (authenticate env self) =
           (self, Some (Exception (''Authentication failed: '' @ str_int (status_code response)
                                   @ '' - '' @ response_text response))))"
proof (intro conjI impI)
  assume "time_at_check env < token_expiry self"
  then show "authenticate env self = ([], self, None)" by (rule authenticate_valid)
next
  assume "\<not> time_at_check env < token_expiry self"
  then show "fst (authenticate env self) =
          [\<lparr>request_url = auth_url,
            authorization = ''Basic '' @ b64encode env (client_id self @ '':'' @ client_secret self),
            content_type = ''application/x-www-form-urlencoded'',
            form_data = [(''grant_type'', ''client_credentials'')]\<rparr>]"
    by (rule authenticate_request)
next
  assume "0 \<le> time_at_check env"
  then have "\<not> time_at_check env < token_expiry (SpotifyClient cid secret)"
    by (simp add: SpotifyClient_def)
  from authenticate_request [OF this]
  show "fst (authenticate env (SpotifyClient cid secret)) \<noteq> []" by simp
next
  assume "\<not> time_at_check env < token_expiry self
        \<and> post env \<lparr>request_url = auth_url,
             authorization = ''Basic '' @ b64encode env (client_id self @ '':'' @ client_secret self),
             content_type = ''application/x-www-form-urlencoded'',
             form_data = [(''grant_type'', ''client_credentials'')]\<rparr> = Inr response
        \<and> status_code response = 200
        \<and> response_json response = Inr token_data
        \<and> py_getitem token_data ''access_token'' = Inr token
        \<and> py_getitem token_data ''expires_in'' = Inr expires_in
        \<and> py_number expires_in = Inr seconds"
  then show "snd (authenticate env self) =
           (self\<lparr>access_token := Some token, token_expiry := time_at_store env + seconds\<rparr>, None)"
    by (intro authenticate_success [of env self response token_data token expires_in seconds])
       simp_all
next
  assume "\<not> time_at_check env < token_expiry self
        \<and> post env \<lparr>request_url = auth_url,
             authorization = ''Basic '' @ b64encode env (client_id self @ '':'' @ client_secret self),
             content_type = ''application/x-www-form-urlencoded'',
             form_data = [(''grant_type'', ''client_credentials'')]\<rparr> = Inr response
        \<and> status_code response \<noteq> 200"
  then show "snd (authenticate env self) =
           (self, Some (Exception (''Authentication failed: '' @ str_int (status_code response)
                                   @ '' - '' @ response_text response)))"
    by (intro authenticate_failure [of env self response]) simp_all
qed


theorem authenticate_lazy_witness:
  "time_at_check \<lparr>time_at_check = 2000, time_at_store = 2001, b64encode = (\<lambda>s. ''aWQ6c2VjcmV0''),
        post = (\<lambda>r. Inr \<lparr>status_code = 200, response_text = [],
                            response_json = Inr (JObj [(''access_token'', JStr ''BQD4''),
                                                        (''expires_in'', JNum 3600)])\<rparr>)\<rparr> < token_expiry \<lparr>client_id = ''id'', client_secret = ''secret'', access_token = Some (JStr ''BQD4''),
        token_expiry = 4601\<rparr>
   \<and> authenticate \<lparr>time_at_check = 2000, time_at_store = 2001, b64encode = (\<lambda>s. ''aWQ6c2VjcmV0''),
        post = (\<lambda>r. Inr \<lparr>status_code = 200, response_text = [],
                            response_json = Inr (JObj [(''access_token'', JStr ''BQD4''),
                                                        (''expires_in'', JNum 3600)])\<rparr>)\<rparr>
       \<lparr>client_id = ''id'', client_secret = ''secret'', access_token = Some (JStr ''BQD4''),
        token_expiry = 4601\<rparr> = ([], \<lparr>client_id = ''id'', client_secret = ''secret'', access_token = Some (JStr ''BQD4''),
        token_expiry = 4601\<rparr>, None)
   \<and> \<not> time_at_check \<lparr>time_at_check = 1000, time_at_store = 1001, b64encode = (\<lambda>s. ''aWQ6c2VjcmV0''),
        post = (\<lambda>r. Inr \<lparr>status_code = 200, response_text = [],
                            response_json = Inr (JObj [(''access_token'', JStr ''BQD4''),
                                                        (''expires_in'', JNum 3600)])\<rparr>)\<rparr> < token_expiry (SpotifyClient ''id'' ''secret'')
   \<and> 0 \<le> time_at_check \<lparr>time_at_check = 1000, time_at_store = 1001, b64encode = (\<lambda>s. ''aWQ6c2VjcmV0''),
        post = (\<lambda>r. Inr \<lparr>status_code = 200, response_text = [],
                            response_json = Inr (JObj [(''access_token'', JStr ''BQD4''),
                                                        (''expires_in'', JNum 3600)])\<rparr>)\<rparr>
   \<and> fst (authenticate \<lparr>time_at_check = 1000, time_at_store = 1001, b64encode = (\<lambda>s. ''aWQ6c2VjcmV0''),
        post = (\<lambda>r. Inr \<lparr>status_code = 200, response_text = [],
                            response_json = Inr (JObj [(''access_token'', JStr ''BQD4''),
                                                        (''expires_in'', JNum 3600)])\<rparr>)\<rparr> (SpotifyClient ''id'' ''secret'')) \<noteq> []
   \<and> snd (authenticate \<lparr>time_at_check = 1000, time_at_store = 1001, b64encode = (\<lambda>s. ''aWQ6c2VjcmV0''),
        post = (\<lambda>r. Inr \<lparr>status_code = 200, response_text = [],
                            response_json = Inr (JObj [(''access_token'', JStr ''BQD4''),
                                                        (''expires_in'', JNum 3600)])\<rparr>)\<rparr> (SpotifyClient ''id'' ''secret'')) = (\<lparr>client_id = ''id'', client_secret = ''secret'', access_token = Some (JStr ''BQD4''),
        token_expiry = 4601\<rparr>, None)
   \<and> snd (authenticate \<lparr>time_at_check = 1000, time_at_store = 1001, b64encode = (\<lambda>s. ''aWQ6c2VjcmV0''),
        post = (\<lambda>r. Inr \<lparr>status_code = 401, response_text = ''denied'',
                            response_json = Inl ValueError\<rparr>)\<rparr> (SpotifyClient ''id'' ''secret''))
       = ((SpotifyClient ''id'' ''secret''), Some (Exception ''Authentication failed: 401 - denied''))"
proof -
  have s: "str_int 401 = ''401''" by code_simp
  show ?thesis
    using authenticate_lazy [of "\<lparr>time_at_check = 2000, time_at_store = 2001, b64encode = (\<lambda>s. ''aWQ6c2VjcmV0''),
        post = (\<lambda>r. Inr \<lparr>status_code = 200, response_text = [],
                            response_json = Inr (JObj [(''access_token'', JStr ''BQD4''),
                                                        (''expires_in'', JNum 3600)])\<rparr>)\<rparr>" "\<lparr>client_id = ''id'', client_secret = ''secret'', access_token = Some (JStr ''BQD4''),
        token_expiry = 4601\<rparr>"]
      authenticate_lazy [of "\<lparr>time_at_check = 1000, time_at_store = 1001, b64encode = (\<lambda>s. ''aWQ6c2VjcmV0''),
        post = (\<lambda>r. Inr \<lparr>status_code = 200, response_text = [],
                            response_json = Inr (JObj [(''access_token'', JStr ''BQD4''),
                                                        (''expires_in'', JNum 3600)])\<rparr>)\<rparr>" "(SpotifyClient ''id'' ''secret'')" "''id''" "''secret''" "\<lparr>status_code = 200, response_text = [],
          response_json = Inr (JObj [(''access_token'', JStr ''BQD4''), (''expires_in'', JNum 3600)])\<rparr>" "(JObj [(''access_token'', JStr ''BQD4''), (''expires_in'', JNum 3600)])" "JStr ''BQD4''" "JNum 3600" 3600]
      authenticate_lazy [of "\<lparr>time_at_check = 1000, time_at_store = 1001, b64encode = (\<lambda>s. ''aWQ6c2VjcmV0''),
        post = (\<lambda>r. Inr \<lparr>status_code = 401, response_text = ''denied'',
                            response_json = Inl ValueError\<rparr>)\<rparr>" "(SpotifyClient ''id'' ''secret'')" _ _ "\<lparr>status_code = 401, response_text = ''denied'', response_json = Inl ValueError\<rparr>"]
    by (simp add: SpotifyClient_def py_getitem_def py_number_def s)
qed

section \<open>Properties of the search orchestrator\<close>

lemma auto_track_shape:
  "(\<exists>r. auto_track env q = ([Search q ''track''], r) \<and> r \<noteq> Inr True)
   \<or> (\<exists>t. auto_track env q =
              ([Search q ''track'', DisplayTrack t],
               case display_track env t of Some e \<Rightarrow> Inl e | None \<Rightarrow> Inr True))"
  by (auto simp: auto_track_def split: sum.splits)

lemma auto_album_shape:
  "(\<exists>r. auto_album env q = ([Search q ''album''], r) \<and> r \<noteq> Inr True)
   \<or> (\<exists>i r. auto_album env q = ([Search q ''album'', GetAlbum i], r) \<and> r \<noteq> Inr True)
   \<or> (\<exists>i a. auto_album env q =
              ([Search q ''album'', GetAlbum i, DisplayAlbum a],
               case display_album env a of Some e \<Rightarrow> Inl e | None \<Rightarrow> Inr True))"
  by (auto simp: auto_album_def split: sum.splits)

lemma auto_artist_shape:
  "(\<exists>r. auto_artist env q = ([Search q ''artist''], r) \<and> r \<noteq> Inr True)
   \<or> (\<exists>i r. auto_artist env q = ([Search q ''artist'', GetArtist i], r) \<and> r \<noteq> Inr True)
   \<or> (\<exists>i a. auto_artist env q =
              ([Search q ''artist'', GetArtist i, DisplayArtist a],
               case display_artist env a of Some e \<Rightarrow> Inl e | None \<Rightarrow> Inr True))"
  by (auto simp: auto_artist_def split: sum.splits)

lemma searches_append: "searches (xs @ ys) = searches xs @ searches ys"
  by (induction xs rule: searches.induct) auto

lemma printed_append: "printed (xs @ ys) = printed xs @ printed ys"
  by (induction xs rule: printed.induct) auto

lemma auto_track_trace:
  "searches (fst (auto_track env q)) = [(q, ''track'')]" "printed (fst (auto_track env q)) = []"
  using auto_track_shape [of env q] by auto

lemma auto_album_trace:
  "searches (fst (auto_album env q)) = [(q, ''album'')]" "printed (fst (auto_album env q)) = []"
  using auto_album_shape [of env q] by auto

lemma auto_artist_trace:
  "searches (fst (auto_artist env q)) = [(q, ''artist'')]" "printed (fst (auto_artist env q)) = []"
  using auto_artist_shape [of env q] by auto

lemma auto_track_hit:
  assumes "snd (auto_track env q) = Inr True"
  shows "\<exists>t. last (fst (auto_track env q)) = DisplayTrack t \<and> display_track env t = None"
  using auto_track_shape [of env q] assms by (auto split: option.splits)

lemma auto_album_hit:
  assumes "snd (auto_album env q) = Inr True"
  shows "\<exists>a. last (fst (auto_album env q)) = DisplayAlbum a \<and> display_album env a = None"
  using auto_album_shape [of env q] assms by (auto split: option.splits)

lemma auto_artist_hit:
  assumes "snd (auto_artist env q) = Inr True"
  shows "\<exists>a. last (fst (auto_artist env q)) = DisplayArtist a \<and> display_artist env a = None"
  using auto_artist_shape [of env q] assms by (auto split: option.splits)

lemma auto_nonempty:
  "fst (auto_track env q) \<noteq> []" "fst (auto_album env q) \<noteq> []" "fst (auto_artist env q) \<noteq> []"
  using auto_track_shape [of env q] auto_album_shape [of env q] auto_artist_shape [of env q]
  by auto

lemma search_auto_eq:
  "search_auto env q =
     (if snd (auto_track env q) = Inr True then fst (auto_track env q)
      else if snd (auto_album env q) = Inr True then fst (auto_track env q) @ fst (auto_album env q)
      else if snd (auto_artist env q) = Inr True
      then fst (auto_track env q) @ fst (auto_album env q) @ fst (auto_artist env q)
      else fst (auto_track env q) @ fst (auto_album env q) @ fst (auto_artist env q)
           @ [Print (''No results found for: '' @ q)])"
  by (simp add: search_auto_def Let_def split_beta)

lemma auto_track_found:
  assumes "search env q ''track'' = Inr result_t \<and> get_items result_t ''tracks'' JNull = Inr items_t
        \<and> truthy items_t \<and> first_item result_t ''tracks'' = Inr track_data
        \<and> parse_track env track_data = Inr track \<and> display_track env track = None"
  shows "auto_track env q = ([Search q ''track'', DisplayTrack track], Inr True)"
  using assms by (simp add: auto_track_def)

lemma auto_album_found:
  assumes "search env q ''album'' = Inr result_a \<and> get_items result_a ''albums'' JNull = Inr items_a
        \<and> truthy items_a \<and> first_item result_a ''albums'' = Inr album_data
        \<and> py_getitem album_data ''id'' = Inr album_id
        \<and> get_album env album_id = Inr album \<and> display_album env album = None"
  shows "auto_album env q = ([Search q ''album'', GetAlbum album_id, DisplayAlbum album], Inr True)"
  using assms by (simp add: auto_album_def)

lemma auto_artist_found:
  assumes "search env q ''artist'' = Inr result_r \<and> get_items result_r ''artists'' JNull = Inr items_r
        \<and> truthy items_r \<and> first_item result_r ''artists'' = Inr artist_data
        \<and> py_getitem artist_data ''id'' = Inr artist_id
        \<and> get_artist env artist_id = Inr artist \<and> display_artist env artist = None"
  shows "auto_artist env q = ([Search q ''artist'', GetArtist artist_id, DisplayArtist artist], Inr True)"
  using assms by (simp add: auto_artist_def)

lemma auto_track_not_found:
  assumes "\<forall>r i d t.
        \<not> (search env q ''track'' = Inr r \<and> get_items r ''tracks'' JNull = Inr i \<and> truthy i
           \<and> first_item r ''tracks'' = Inr d \<and> parse_track env d = Inr t
           \<and> display_track env t = None)"
  shows "snd (auto_track env q) \<noteq> Inr True"
  using assms by (auto simp: auto_track_def split: sum.splits option.splits if_splits)

lemma auto_album_not_found:
  assumes "\<forall>r i d k a.
        \<not> (search env q ''album'' = Inr r \<and> get_items r ''albums'' JNull = Inr i \<and> truthy i
           \<and> first_item r ''albums'' = Inr d \<and> py_getitem d ''id'' = Inr k
           \<and> get_album env k = Inr a \<and> display_album env a = None)"
  shows "snd (auto_album env q) \<noteq> Inr True"
  using assms by (auto simp: auto_album_def split: sum.splits option.splits if_splits)

lemma auto_artist_not_found:
  assumes "\<forall>r i d k a.
        \<not> (search env q ''artist'' = Inr r \<and> get_items r ''artists'' JNull = Inr i \<and> truthy i
           \<and> first_item r ''artists'' = Inr d \<and> py_getitem d ''id'' = Inr k
           \<and> get_artist env k = Inr a \<and> display_artist env a = None)"
  shows "snd (auto_artist env q) \<noteq> Inr True"
  using assms by (auto simp: auto_artist_def split: sum.splits option.splits if_splits)

lemma auto_track_raises_or_empty:
  assumes "search env q ''track'' = Inl e
        \<or> search env q ''track'' = Inr result_t \<and> get_items result_t ''tracks'' JNull = Inr items_t
           \<and> \<not> truthy items_t"
  shows "snd (auto_track env q) \<noteq> Inr True"
  using assms by (auto simp: auto_track_def)


text \<open>
  Claim C4: \<open>search_auto\<close> tries the kinds in the order track, album, artist. When
  the track search returns a result with a non-empty item list whose first item is
  parsed and displayed without an exception, the whole run is that search and that
  display: album and artist are not searched. When no track is found this way (the
  result is empty, or the search, the parsing or the display raises) the album is
  searched next, and likewise the artist after the album; the first kind that is found,
  fetched and displayed ends the run with its display, and no exception is propagated.
  When no kind is found, all three are searched and the run ends with the message
  \<open>No results found for: <query>\<close>, which is printed in no other case.
\<close>

theorem search_auto_first_hit:
  "(search env q ''track'' = Inr result_t \<and> get_items result_t ''tracks'' JNull = Inr items_t
        \<and> truthy items_t \<and> first_item result_t ''tracks'' = Inr track_data
        \<and> parse_track env track_data = Inr track \<and> display_track env track = None
      \<longrightarrow> search_auto env q = [Search q ''track'', DisplayTrack track])
   \<and> ((\<forall>r i d t.
        \<not> (search env q ''track'' = Inr r \<and> get_items r ''tracks'' JNull = Inr i \<and> truthy i
           \<and> first_item r ''tracks'' = Inr d \<and> parse_track env d = Inr t
           \<and> display_track env t = None))
      \<and> search env q ''album'' = Inr result_a \<and> get_items result_a ''albums'' JNull = Inr items_a
        \<and> truthy items_a \<and> first_item result_a ''albums'' = Inr album_data
        \<and> py_getitem album_data ''id'' = Inr album_id
        \<and> get_album env album_id = Inr album \<and> display_album env album = None
      \<longrightarrow> search_auto env q
            = fst (auto_track env q) @ [Search q ''album'', GetAlbum album_id, DisplayAlbum album]
          \<and> searches (search_auto env q) = [(q, ''track''), (q, ''album'')]
          \<and> printed (search_auto env q) = [])
   \<and> ((\<forall>r i d t.
        \<not> (search env q ''track'' = Inr r \<and> get_items r ''tracks'' JNull = Inr i \<and> truthy i
           \<and> first_item r ''tracks'' = Inr d \<and> parse_track env d = Inr t
           \<and> display_track env t = None))
      \<and> (\<forall>r i d k a.
        \<not> (search env q ''album'' = Inr r \<and> get_items r ''albums'' JNull = Inr i \<and> truthy i
           \<and> first_item r ''albums'' = Inr d \<and> py_getitem d ''id'' = Inr k
           \<and> get_album env k = Inr a \<and> display_album env a = None))
      \<and> search env q ''artist'' = Inr result_r \<and> get_items result_r ''artists'' JNull = Inr items_r
        \<and> truthy items_r \<and> first_item result_r ''artists'' = Inr artist_data
        \<and> py_getitem artist_data ''id'' = Inr artist_id
        \<and> get_artist env artist_id = Inr artist \<and> display_artist env artist = None
      \<longrightarrow> search_auto env q
            = fst (auto_track env q) @ fst (auto_album env q)
              @ [Search q ''artist'', GetArtist artist_id, DisplayArtist artist]
          \<and> searches (search_auto env q) = [(q, ''track''), (q, ''album''), (q, ''artist'')]
          \<and> printed (search_auto env q) = [])
   \<and> ((\<forall>r i d t.
        \<not> (search env q ''track'' = Inr r \<and> get_items r ''tracks'' JNull = Inr i \<and> truthy i
           \<and> first_item r ''tracks'' = Inr d \<and> parse_track env d = Inr t
           \<and> display_track env t = None))
      \<and> (\<forall>r i d k a.
        \<not> (search env q ''album'' = Inr r \<and> get_items r ''albums'' JNull = Inr i \<and> truthy i
           \<and> first_item r ''albums'' = Inr d \<and> py_getitem d ''id'' = Inr k
           \<and> get_album env k = Inr a \<and> display_album env a = None))
      \<and> (\<forall>r i d k a.
        \<not> (search env q ''artist'' = Inr r \<and> get_items r ''artists'' JNull = Inr i \<and> truthy i
           \<and> first_item r ''artists'' = Inr d \<and> py_getitem d ''id'' = Inr k
           \<and> get_artist env k = Inr a \<and> display_artist env a = None))
      \<longrightarrow> search_auto env q
            = fst (auto_track env q) @ fst (auto_album env q) @ fst (auto_artist env q)
              @ [Print (''No results found for: '' @ q)]
          \<and> searches (search_auto env q) = [(q, ''track''), (q, ''album''), (q, ''artist'')]
          \<and> printed (search_auto env q) = [''No results found for: '' @ q])
   \<and> ((search env q ''track'' = Inl e
        \<or> search env q ''track'' = Inr result_t \<and> get_items result_t ''tracks'' JNull = Inr items_t
           \<and> \<not> truthy items_t)
      \<longrightarrow> take 2 (searches (search_auto env q)) = [(q, ''track''), (q, ''album'')])"
proof (intro conjI impI)
  assume "search env q ''track'' = Inr result_t \<and> get_items result_t ''tracks'' JNull = Inr items_t
        \<and> truthy items_t \<and> first_item result_t ''tracks'' = Inr track_data
        \<and> parse_track env track_data = Inr track \<and> display_track env track = None"
  from auto_track_found [OF this]
  show "search_auto env q = [Search q ''track'', DisplayTrack track]"
    by (simp add: search_auto_eq)
next
  assume h: "(\<forall>r i d t.
        \<not> (search env q ''track'' = Inr r \<and> get_items r ''tracks'' JNull = Inr i \<and> truthy i
           \<and> first_item r ''tracks'' = Inr d \<and> parse_track env d = Inr t
           \<and> display_track env t = None))
      \<and> search env q ''album'' = Inr result_a \<and> get_items result_a ''albums'' JNull = Inr items_a
        \<and> truthy items_a \<and> first_item result_a ''albums'' = Inr album_data
        \<and> py_getitem album_data ''id'' = Inr album_id
        \<and> get_album env album_id = Inr album \<and> display_album env album = None"
  then have t: "snd (auto_track env q) \<noteq> Inr True" by (intro auto_track_not_found) blast
  from h have a: "auto_album env q = ([Search q ''album'', GetAlbum album_id, DisplayAlbum album], Inr True)"
    by (intro auto_album_found) blast
  show "search_auto env q
            = fst (auto_track env q) @ [Search q ''album'', GetAlbum album_id, DisplayAlbum album]"
    using t a by (simp add: search_auto_eq)
  then show "searches (search_auto env q) = [(q, ''track''), (q, ''album'')]"
    and "printed (search_auto env q) = []"
    by (simp_all add: searches_append printed_append auto_track_trace)
next
  assume h: "(\<forall>r i d t.
        \<not> (search env q ''track'' = Inr r \<and> get_items r ''tracks'' JNull = Inr i \<and> truthy i
           \<and> first_item r ''tracks'' = Inr d \<and> parse_track env d = Inr t
           \<and> display_track env t = None))
      \<and> (\<forall>r i d k a.
        \<not> (search env q ''album'' = Inr r \<and> get_items r ''albums'' JNull = Inr i \<and> truthy i
           \<and> first_item r ''albums'' = Inr d \<and> py_getitem d ''id'' = Inr k
           \<and> get_album env k = Inr a \<and> display_album env a = None))
      \<and> search env q ''artist'' = Inr result_r \<and> get_items result_r ''artists'' JNull = Inr items_r
        \<and> truthy items_r \<and> first_item result_r ''artists'' = Inr artist_data
        \<and> py_getitem artist_data ''id'' = Inr artist_id
        \<and> get_artist env artist_id = Inr artist \<and> display_artist env artist = None"
  then have t: "snd (auto_track env q) \<noteq> Inr True" by (intro auto_track_not_found) blast
  from h have a: "snd (auto_album env q) \<noteq> Inr True" by (intro auto_album_not_found) blast
  from h have r: "auto_artist env q
      = ([Search q ''artist'', GetArtist artist_id, DisplayArtist artist], Inr True)"
    by (intro auto_artist_found) blast
  show "search_auto env q
            = fst (auto_track env q) @ fst (auto_album env q)
              @ [Search q ''artist'', GetArtist artist_id, DisplayArtist artist]"
    using t a r by (simp add: search_auto_eq)
  then show "searches (search_auto env q) = [(q, ''track''), (q, ''album''), (q, ''artist'')]"
    and "printed (search_auto env q) = []"
    by (simp_all add: searches_append printed_append auto_track_trace auto_album_trace)
next
  assume h: "(\<forall>r i d t.
        \<not> (search env q ''track'' = Inr r \<and> get_items r ''tracks'' JNull = Inr i \<and> truthy i
           \<and> first_item r ''tracks'' = Inr d \<and> parse_track env d = Inr t
           \<and> display_track env t = None))
      \<and> (\<forall>r i d k a.
        \<not> (search env q ''album'' = Inr r \<and> get_items r ''albums'' JNull = Inr i \<and> truthy i
           \<and> first_item r ''albums'' = Inr d \<and> py_getitem d ''id'' = Inr k
           \<and> get_album env k = Inr a \<and> display_album env a = None))
      \<and> (\<forall>r i d k a.
        \<not> (search env q ''artist'' = Inr r \<and> get_items r ''artists'' JNull = Inr i \<and> truthy i
           \<and> first_item r ''artists'' = Inr d \<and> py_getitem d ''id'' = Inr k
           \<and> get_artist env k = Inr a \<and> display_artist env a = None))"
  then have t: "snd (auto_track env q) \<noteq> Inr True" by (intro auto_track_not_found) blast
  from h have a: "snd (auto_album env q) \<noteq> Inr True" by (intro auto_album_not_found) blast
  from h have r: "snd (auto_artist env q) \<noteq> Inr True" by (intro auto_artist_not_found) blast
  show "search_auto env q
            = fst (auto_track env q) @ fst (auto_album env q) @ fst (auto_artist env q)
              @ [Print (''No results found for: '' @ q)]"
    using t a r by (simp add: search_auto_eq)
  then show "searches (search_auto env q) = [(q, ''track''), (q, ''album''), (q, ''artist'')]"
    and "printed (search_auto env q) = [''No results found for: '' @ q]"
    by (simp_all add: searches_append printed_append auto_track_trace auto_album_trace
          auto_artist_trace)
next
  assume "search env q ''track'' = Inl e
        \<or> search env q ''track'' = Inr result_t \<and> get_items result_t ''tracks'' JNull = Inr items_t
           \<and> \<not> truthy items_t"
  then have "snd (auto_track env q) \<noteq> Inr True" by (rule auto_track_raises_or_empty)
  then show "take 2 (searches (search_auto env q)) = [(q, ''track''), (q, ''album'')]"
    by (simp add: search_auto_eq searches_append auto_track_trace auto_album_trace
          auto_artist_trace)
qed

lemmas search_eval =
  auto_track_def auto_album_def auto_artist_def get_items_def first_item_def
  py_get_def py_getitem_def py_first_def py_index_def truthy_def

theorem search_auto_first_hit_witness:
  "search (example_env ''track'' []) ''queen'' ''track'' = Inr (JObj [(''tracks'', JObj [(''items'', JList [JObj [(''id'', JStr ''x1'')]])])])
   \<and> get_items (JObj [(''tracks'', JObj [(''items'', JList [JObj [(''id'', JStr ''x1'')]])])]) ''tracks'' JNull = Inr (JList [JObj [(''id'', JStr ''x1'')]])
   \<and> truthy (JList [JObj [(''id'', JStr ''x1'')]])
   \<and> first_item (JObj [(''tracks'', JObj [(''items'', JList [JObj [(''id'', JStr ''x1'')]])])]) ''tracks'' = Inr (JObj [(''id'', JStr ''x1'')])
   \<and> search_auto (example_env ''track'' []) ''queen'' = [Search ''queen'' ''track'', DisplayTrack ''a track'']
   \<and> (\<forall>r i d t.
          \<not> (search (example_env ''album'' []) ''queen'' ''track'' = Inr r \<and> get_items r ''tracks'' JNull = Inr i \<and> truthy i
             \<and> first_item r ''tracks'' = Inr d \<and> parse_track (example_env ''album'' []) d = Inr t
             \<and> display_track (example_env ''album'' []) t = None))
   \<and> search (example_env ''album'' []) ''queen'' ''album'' = Inr (JObj [(''albums'', JObj [(''items'', JList [JObj [(''id'', JStr ''x1'')]])])])
   \<and> search_auto (example_env ''album'' []) ''queen''
       = [Search ''queen'' ''track'', Search ''queen'' ''album'', GetAlbum (JStr ''x1''),
          DisplayAlbum ''an album'']
   \<and> (\<forall>r i d t.
          \<not> (search (example_env ''artist'' ''album'') ''queen'' ''track'' = Inr r \<and> get_items r ''tracks'' JNull = Inr i \<and> truthy i
             \<and> first_item r ''tracks'' = Inr d \<and> parse_track (example_env ''artist'' ''album'') d = Inr t
             \<and> display_track (example_env ''artist'' ''album'') t = None))
   \<and> (\<forall>r i d k a.
          \<not> (search (example_env ''artist'' ''album'') ''queen'' ''album'' = Inr r \<and> get_items r ''albums'' JNull = Inr i \<and> truthy i
             \<and> first_item r ''albums'' = Inr d \<and> py_getitem d ''id'' = Inr k
             \<and> get_album (example_env ''artist'' ''album'') k = Inr a \<and> display_album (example_env ''artist'' ''album'') a = None))
   \<and> search (example_env ''artist'' ''album'') ''queen'' ''album'' = Inl (OtherError ''ReadTimeout'')
   \<and> search (example_env ''artist'' ''album'') ''queen'' ''artist'' = Inr (JObj [(''artists'', JObj [(''items'', JList [JObj [(''id'', JStr ''x1'')]])])])
   \<and> search_auto (example_env ''artist'' ''album'') ''queen''
       = [Search ''queen'' ''track'', Search ''queen'' ''album'', Search ''queen'' ''artist'',
          GetArtist (JStr ''x1''), DisplayArtist ''an artist'']
   \<and> (\<forall>r i d t.
          \<not> (search (example_env [] []) ''queen'' ''track'' = Inr r \<and> get_items r ''tracks'' JNull = Inr i \<and> truthy i
             \<and> first_item r ''tracks'' = Inr d \<and> parse_track (example_env [] []) d = Inr t
             \<and> display_track (example_env [] []) t = None))
   \<and> (\<forall>r i d k a.
          \<not> (search (example_env [] []) ''queen'' ''album'' = Inr r \<and> get_items r ''albums'' JNull = Inr i \<and> truthy i
             \<and> first_item r ''albums'' = Inr d \<and> py_getitem d ''id'' = Inr k
             \<and> get_album (example_env [] []) k = Inr a \<and> display_album (example_env [] []) a = None))
   \<and> (\<forall>r i d k a.
          \<not> (search (example_env [] []) ''queen'' ''artist'' = Inr r \<and> get_items r ''artists'' JNull = Inr i \<and> truthy i
             \<and> first_item r ''artists'' = Inr d \<and> py_getitem d ''id'' = Inr k
             \<and> get_artist (example_env [] []) k = Inr a \<and> display_artist (example_env [] []) a = None))
   \<and> search_auto (example_env [] []) ''queen''
       = [Search ''queen'' ''track'', Search ''queen'' ''album'', Search ''queen'' ''artist'',
          Print ''No results found for: queen'']
   \<and> take 2 (searches (search_auto (example_env ''artist'' ''album'') ''queen''))
       = [(''queen'', ''track''), (''queen'', ''album'')]"
proof -
  note ev = search_eval search_auto_eq example_env_def
  have t1: "search_auto (example_env ''track'' []) ''queen'' = [Search ''queen'' ''track'', DisplayTrack ''a track'']"
    by (rule search_auto_first_hit
          [where env = "example_env ''track'' []" and q = "''queen''"
             and result_t = "JObj [(''tracks'', JObj [(''items'', JList [JObj [(''id'', JStr ''x1'')]])])]" and items_t = "JList [JObj [(''id'', JStr ''x1'')]]"
             and track_data = "JObj [(''id'', JStr ''x1'')]" and track = "''a track''",
           THEN conjunct1, THEN mp])
       (simp add: ev)
  have na: "(\<forall>r i d t.
          \<not> (search (example_env ''album'' []) ''queen'' ''track'' = Inr r \<and> get_items r ''tracks'' JNull = Inr i \<and> truthy i
             \<and> first_item r ''tracks'' = Inr d \<and> parse_track (example_env ''album'' []) d = Inr t
             \<and> display_track (example_env ''album'' []) t = None))"
    by (auto simp: ev)
  have t2: "search_auto (example_env ''album'' []) ''queen''
       = fst (auto_track (example_env ''album'' []) ''queen'')
         @ [Search ''queen'' ''album'', GetAlbum (JStr ''x1''), DisplayAlbum ''an album'']"
    by (rule search_auto_first_hit
          [where env = "example_env ''album'' []" and q = "''queen''"
             and result_a = "JObj [(''albums'', JObj [(''items'', JList [JObj [(''id'', JStr ''x1'')]])])]" and items_a = "JList [JObj [(''id'', JStr ''x1'')]]"
             and album_data = "JObj [(''id'', JStr ''x1'')]" and album_id = "JStr ''x1''" and album = "''an album''",
           THEN conjunct2, THEN conjunct1, THEN mp, THEN conjunct1])
       (auto simp: ev)
  have nr: "(\<forall>r i d t.
          \<not> (search (example_env ''artist'' ''album'') ''queen'' ''track'' = Inr r \<and> get_items r ''tracks'' JNull = Inr i \<and> truthy i
             \<and> first_item r ''tracks'' = Inr d \<and> parse_track (example_env ''artist'' ''album'') d = Inr t
             \<and> display_track (example_env ''artist'' ''album'') t = None))"
    "(\<forall>r i d k a.
          \<not> (search (example_env ''artist'' ''album'') ''queen'' ''album'' = Inr r \<and> get_items r ''albums'' JNull = Inr i \<and> truthy i
             \<and> first_item r ''albums'' = Inr d \<and> py_getitem d ''id'' = Inr k
             \<and> get_album (example_env ''artist'' ''album'') k = Inr a \<and> display_album (example_env ''artist'' ''album'') a = None))"
    by (auto simp: ev)
  have t3: "search_auto (example_env ''artist'' ''album'') ''queen''
       = fst (auto_track (example_env ''artist'' ''album'') ''queen'') @ fst (auto_album (example_env ''artist'' ''album'') ''queen'')
         @ [Search ''queen'' ''artist'', GetArtist (JStr ''x1''), DisplayArtist ''an artist'']"
    by (rule search_auto_first_hit
          [where env = "example_env ''artist'' ''album''" and q = "''queen''"
             and result_r = "JObj [(''artists'', JObj [(''items'', JList [JObj [(''id'', JStr ''x1'')]])])]" and items_r = "JList [JObj [(''id'', JStr ''x1'')]]"
             and artist_data = "JObj [(''id'', JStr ''x1'')]" and artist_id = "JStr ''x1''" and artist = "''an artist''",
           THEN conjunct2, THEN conjunct2, THEN conjunct1, THEN mp, THEN conjunct1])
       (auto simp: ev)
  have nn: "(\<forall>r i d t.
          \<not> (search (example_env [] []) ''queen'' ''track'' = Inr r \<and> get_items r ''tracks'' JNull = Inr i \<and> truthy i
             \<and> first_item r ''tracks'' = Inr d \<and> parse_track (example_env [] []) d = Inr t
             \<and> display_track (example_env [] []) t = None))"
    "(\<forall>r i d k a.
          \<not> (search (example_env [] []) ''queen'' ''album'' = Inr r \<and> get_items r ''albums'' JNull = Inr i \<and> truthy i
             \<and> first_item r ''albums'' = Inr d \<and> py_getitem d ''id'' = Inr k
             \<and> get_album (example_env [] []) k = Inr a \<and> display_album (example_env [] []) a = None))"
    "(\<forall>r i d k a.
          \<not> (search (example_env [] []) ''queen'' ''artist'' = Inr r \<and> get_items r ''artists'' JNull = Inr i \<and> truthy i
             \<and> first_item r ''artists'' = Inr d \<and> py_getitem d ''id'' = Inr k
             \<and> get_artist (example_env [] []) k = Inr a \<and> display_artist (example_env [] []) a = None))"
    by (auto simp: ev)
  have t4: "search_auto (example_env [] []) ''queen''
       = fst (auto_track (example_env [] []) ''queen'') @ fst (auto_album (example_env [] []) ''queen'')
         @ fst (auto_artist (example_env [] []) ''queen'') @ [Print (''No results found for: '' @ ''queen'')]"
    by (rule search_auto_first_hit
          [where env = "example_env [] []" and q = "''queen''",
           THEN conjunct2, THEN conjunct2, THEN conjunct2, THEN conjunct1, THEN mp, THEN conjunct1])
       (auto simp: ev)
  have t5: "take 2 (searches (search_auto (example_env ''artist'' ''album'') ''queen''))
       = [(''queen'', ''track''), (''queen'', ''album'')]"
    by (rule search_auto_first_hit
          [where env = "example_env ''artist'' ''album''" and q = "''queen''"
             and result_t = "JObj [(''tracks'', JObj [(''items'', JList [])])]"
             and items_t = "JList []",
           THEN conjunct2, THEN conjunct2, THEN conjunct2, THEN conjunct2, THEN mp])
       (auto simp: ev)
  show ?thesis
    unfolding t1 t2 t3 t4 t5 using na nr nn by (simp add: search_eval example_env_def)
qed

text \<open>
  Claim C10, as stated: for a kind outside track, album and artist, \<open>search_specific\<close>
  prints nothing at all. The search request is inside the \<open>try\<close>: when it raises
  (the catalog answers an unknown type with an error status), the handler prints the
  failure and exits with status 1.
\<close>

theorem search_specific_other_kind_counterexample:
  "search_specific (example_env [] ''genre'') ''queen'' ''genre''
     = [Search ''queen'' ''genre'', PrintSearchFailed (OtherError ''ReadTimeout''), Exit 1]"
  by (simp add: search_specific_def search_failed_def example_env_def)

text \<open>
  Claim C10, amended: for a kind outside track, album and artist, \<open>search_specific\<close>
  still issues the search request; when the request returns, nothing is displayed and no
  message is printed; when the request raises, the failure is printed and the process
  exits with status 1.
\<close>

theorem search_specific_other_kind:
  "search_type \<noteq> ''track'' \<and> search_type \<noteq> ''album'' \<and> search_type \<noteq> ''artist'' \<longrightarrow>
   search_specific env q search_type =
     (case search env q search_type of
        Inl e \<Rightarrow> [Search q search_type, PrintSearchFailed e, Exit 1]
      | Inr result \<Rightarrow> [Search q search_type])"
  by (simp add: search_specific_def search_failed_def split: sum.splits)

theorem search_specific_other_kind_witness:
  "''playlist'' \<noteq> ''track'' \<and> ''playlist'' \<noteq> ''album'' \<and> ''playlist'' \<noteq> ''artist''
   \<and> search_specific (example_env [] []) ''queen'' ''playlist'' = [Search ''queen'' ''playlist'']
   \<and> search_specific (example_env [] ''playlist'') ''queen'' ''playlist''
       = [Search ''queen'' ''playlist'', PrintSearchFailed (OtherError ''ReadTimeout''), Exit 1]"
  using search_specific_other_kind [of "''playlist''" "example_env [] []" "''queen''"]
    search_specific_other_kind [of "''playlist''" "example_env [] ''playlist''" "''queen''"]
  by (simp add: example_env_def)

section \<open>Properties of ordinal dates\<close>





















section \<open>Properties of durations\<close>

lemmas duration_eval =
  format_duration_ms_def timedelta_milliseconds_def format_duration_def int_total_seconds_def
  int_true_div_def round_half_even_def mantissa_shift.simps format_02d_def zero_fill_def
  str_int_def str_nat.simps digit_char_def Let_def

lemma format_duration_examples:
  "format_duration_ms 125000 = Inr ''2:05''"
  "format_duration_ms 59999 = Inr ''0:59''"
  "format_duration_ms 0 = Inr ''0:00''"
  "format_duration_ms (- 1500) = Inr ''-1:59''"
  "format_duration_ms 86400000000000000 = Inl OverflowError"
  "format_duration_ms 17592186044416998 = Inr ''293203100740:16''"
  by (simp_all add: duration_eval)

text \<open>
  Claim C8, as stated: for every non-negative number of milliseconds the formatter
  returns minutes and seconds by floor division. The seconds are
  \<open>int(duration.total_seconds())\<close>, a float: from \<open>2 ^ 44\<close> seconds on, the doubles are
  more than 0.002 apart, and 17592186044416.999 seconds is rounded up to a whole second.
\<close>

theorem format_duration_rounding_counterexample:
  "format_duration_ms 17592186044416999 = Inr ''293203100740:17''
   \<and> 17592186044416999 div 60000 = (293203100740 :: int)
   \<and> (17592186044416999 div 1000) mod 60 = (16 :: int)"
  by (simp add: duration_eval)

end
